theory Spec2Isabelle
  imports Main
begin

section \<open>Python values decoded from JSON\<close>

text \<open>
  The generators work on what \<^verbatim>\<open>response.json()\<close> returns: Python values built from
  JSON. A dict keeps its insertion order, so an object is an association list (keys
  distinct, as in any Python dict); lookups take the first pair with the key. Numbers are
  the integers; JSON numbers with a fraction or an exponent are outside the model.
  A Python \<^verbatim>\<open>str\<close> is a \<open>string\<close>: its characters are the code points below 256.
\<close>

datatype json =
    JNull
  | JBool bool
  | JNum int
  | JStr string
  | JArr "json list"
  | JObj "(string \<times> json) list"

text \<open>
  The exceptions the code can meet. \<open>RequestException\<close> stands for the whole class
  \<^verbatim>\<open>requests.exceptions.RequestException\<close> (connection errors, timeouts, HTTP status
  errors); \<open>JSONDecodeError\<close> is a decode error that is not in that class.
  \<open>OSError\<close> is an \<^verbatim>\<open>OSError\<close> of no more special class: here, a name that is too
  long.
\<close>

datatype py_error =
    RequestException
  | JSONDecodeError
  | AttributeError
  | TypeError
  | KeyError
  | IndexError
  | FileNotFoundError
  | FileExistsError
  | NotADirectoryError
  | IsADirectoryError
  | OSError
  | ValueError
  | ParseError

text \<open>Truth value testing: \<^verbatim>\<open>if x:\<close> and \<^verbatim>\<open>not x\<close>.\<close>

fun truthy :: "json \<Rightarrow> bool" where
  "truthy JNull = False"
| "truthy (JBool b) = b"
| "truthy (JNum n) = (n \<noteq> 0)"
| "truthy (JStr s) = (s \<noteq> [])"
| "truthy (JArr xs) = (xs \<noteq> [])"
| "truthy (JObj kvs) = (kvs \<noteq> [])"

text \<open>\<^verbatim>\<open>d.get(key, default)\<close>: only a dict has the method.\<close>

fun dict_get :: "json \<Rightarrow> string \<Rightarrow> json \<Rightarrow> py_error + json" where
  "dict_get (JObj kvs) k d = Inr (case map_of kvs k of None \<Rightarrow> d | Some v \<Rightarrow> v)"
| "dict_get _ k d = Inl AttributeError"

text \<open>\<^verbatim>\<open>sub in s\<close> on two strings is the substring test.\<close>

fun starts_with :: "string \<Rightarrow> string \<Rightarrow> bool" where
  "starts_with [] s = True"
| "starts_with (p # ps) [] = False"
| "starts_with (p # ps) (c # cs) = (p = c \<and> starts_with ps cs)"

fun str_contains :: "string \<Rightarrow> string \<Rightarrow> bool" where
  "str_contains sub [] = (sub = [])"
| "str_contains sub (c # cs) = (starts_with sub (c # cs) \<or> str_contains sub cs)"

text \<open>
  \<^verbatim>\<open>key in x\<close> for a string key: key membership on a dict, element membership on a
  list, substring test on a string, \<^verbatim>\<open>TypeError\<close> on anything else.
\<close>

fun py_in :: "string \<Rightarrow> json \<Rightarrow> py_error + bool" where
  "py_in k (JObj kvs) = Inr (k \<in> set (map fst kvs))"
| "py_in k (JArr xs) = Inr (JStr k \<in> set xs)"
| "py_in k (JStr s) = Inr (str_contains k s)"
| "py_in k _ = Inl TypeError"

text \<open>\<^verbatim>\<open>x[key]\<close> for a string key.\<close>

fun py_getitem :: "json \<Rightarrow> string \<Rightarrow> py_error + json" where
  "py_getitem (JObj kvs) k = (case map_of kvs k of None \<Rightarrow> Inl KeyError | Some v \<Rightarrow> Inr v)"
| "py_getitem _ k = Inl TypeError"

text \<open>\<^verbatim>\<open>list(x.keys())[0]\<close>.\<close>

fun first_key :: "json \<Rightarrow> py_error + string" where
  "first_key (JObj []) = Inl IndexError"
| "first_key (JObj (kv # kvs)) = Inr (fst kv)"
| "first_key _ = Inl AttributeError"

subsection \<open>\<^verbatim>\<open>str()\<close> of a value\<close>

text \<open>
  An f-string field \<^verbatim>\<open>{x}\<close> and \<^verbatim>\<open>str(x)\<close> give the string itself for a string and
  the \<^verbatim>\<open>repr\<close> for every other value.
\<close>

function show_nat :: "nat \<Rightarrow> string" where
  "show_nat n =
     (if n < 10 then [''0123456789'' ! n]
      else show_nat (n div 10) @ [''0123456789'' ! (n mod 10)])"
  by pat_completeness auto
termination
  by (relation "measure id") auto

definition show_int :: "int \<Rightarrow> string" where
  "show_int i = (if i < 0 then CHR ''-'' # show_nat (nat (- i)) else show_nat (nat i))"

definition hex2 :: "nat \<Rightarrow> string" where
  "hex2 n = [''0123456789abcdef'' ! (n div 16 mod 16), ''0123456789abcdef'' ! (n mod 16)]"

definition printable :: "char \<Rightarrow> bool" where
  "printable c =
     (let n = (of_char c :: nat)
      in \<not> (n < 32 \<or> n = 127 \<or> (128 \<le> n \<and> n \<le> 160) \<or> n = 173))"

definition repr_char :: "char \<Rightarrow> char \<Rightarrow> string" where
  "repr_char q c =
     (if c = CHR 0x5C then [CHR 0x5C, CHR 0x5C]
      else if c = q then [CHR 0x5C, q]
      else if c = CHR 0x0A then [CHR 0x5C, CHR ''n'']
      else if c = CHR 0x0D then [CHR 0x5C, CHR ''r'']
      else if c = CHR 0x09 then [CHR 0x5C, CHR ''t'']
      else if \<not> printable c then [CHR 0x5C, CHR ''x''] @ hex2 (of_char c)
      else [c])"

definition repr_str :: "string \<Rightarrow> string" where
  "repr_str s =
     (let q = (if CHR 0x27 \<in> set s \<and> CHR 0x22 \<notin> set s then CHR 0x22 else CHR 0x27)
      in q # concat (map (repr_char q) s) @ [q])"

text \<open>\<^verbatim>\<open>sep.join(xs)\<close>.\<close>

fun join :: "string \<Rightarrow> string list \<Rightarrow> string" where
  "join sep [] = []"
| "join sep [x] = x"
| "join sep (x # y # ys) = x @ sep @ join sep (y # ys)"

fun py_repr :: "json \<Rightarrow> string" where
  "py_repr JNull = ''None''"
| "py_repr (JBool b) = (if b then ''True'' else ''False'')"
| "py_repr (JNum n) = show_int n"
| "py_repr (JStr s) = repr_str s"
| "py_repr (JArr xs) = ''['' @ join '', '' (map py_repr xs) @ '']''"
| "py_repr (JObj kvs) =
     ''{'' @ join '', '' (map (\<lambda>kv. repr_str (fst kv) @ '': '' @ py_repr (snd kv)) kvs) @ ''}''"

fun py_str :: "json \<Rightarrow> string" where
  "py_str (JStr s) = s"
| "py_str v = py_repr v"

section \<open>The Extractor\<close>

text \<open>
  The dict that \<^verbatim>\<open>extract_xml_data\<close> returns, with its nested \<^verbatim>\<open>currency\<close> dict. The
  keys \<^verbatim>\<open>code\<close>, \<^verbatim>\<open>name\<close>, \<^verbatim>\<open>symbol\<close> of the currency dict are the fields
  \<open>currency_code\<close>, \<open>currency_name\<close>, \<open>currency_symbol\<close>. The values are whatever
  the record holds under the keys read: nothing checks that they are strings.
\<close>

record currency_info =
  currency_code :: json
  currency_name :: json
  currency_symbol :: json

record xml_data =
  code :: json
  original_name :: json
  common_name :: json
  local_name :: json
  currency :: currency_info

definition language_priority :: "string list" where
  "language_priority = [''hin'', ''jpn'', ''deu'', ''fra'', ''spa'', ''ara'', ''zho'']"

text \<open>
  The priority loop of \<^verbatim>\<open>improved_xml_generator.py\<close>, lines 66 to 69: the first language
  of the list that is in \<^verbatim>\<open>native_names\<close> sets \<^verbatim>\<open>local_name\<close> and ends the loop;
  \<^verbatim>\<open>local_name\<close> stays \<^verbatim>\<open>""\<close> when none is.
\<close>

fun priority_loop :: "string list \<Rightarrow> json \<Rightarrow> py_error + json" where
  "priority_loop [] native_names = Inr (JStr [])"
| "priority_loop (lang # langs) native_names =
     (case py_in lang native_names of
        Inl e \<Rightarrow> Inl e
      | Inr True \<Rightarrow>
          (case py_getitem native_names lang of
             Inl e \<Rightarrow> Inl e
           | Inr entry \<Rightarrow> dict_get entry ''official'' (JStr []))
      | Inr False \<Rightarrow> priority_loop langs native_names)"

text \<open>\<^verbatim>\<open>native_names[list(native_names.keys())[0]].get("official", "")\<close>.\<close>

definition first_available :: "json \<Rightarrow> py_error + json" where
  "first_available native_names =
     (case first_key native_names of
        Inl e \<Rightarrow> Inl e
      | Inr first_lang \<Rightarrow>
          (case py_getitem native_names first_lang of
             Inl e \<Rightarrow> Inl e
           | Inr entry \<Rightarrow> dict_get entry ''official'' (JStr [])))"

text \<open>Lines 77 to 85 (the same in both generators): the first currency, or three empty strings.\<close>

definition extract_currency :: "json \<Rightarrow> py_error + currency_info" where
  "extract_currency currencies =
     (if truthy currencies then
        (case first_key currencies of
           Inl e \<Rightarrow> Inl e
         | Inr ccode \<Rightarrow>
             (case py_getitem currencies ccode of
                Inl e \<Rightarrow> Inl e
              | Inr currency_data \<Rightarrow>
                  (case dict_get currency_data ''name'' (JStr []) of
                     Inl e \<Rightarrow> Inl e
                   | Inr nm \<Rightarrow>
                       (case dict_get currency_data ''symbol'' (JStr []) of
                          Inl e \<Rightarrow> Inl e
                        | Inr sy \<Rightarrow>
                            Inr \<lparr>currency_code = JStr ccode, currency_name = nm,
                                 currency_symbol = sy\<rparr>))))
      else Inr \<lparr>currency_code = JStr [], currency_name = JStr [], currency_symbol = JStr []\<rparr>)"

text \<open>
  The returned dict, lines 87 to 93. \<^verbatim>\<open>country_data\<close> and \<^verbatim>\<open>name_data\<close> have answered
  \<^verbatim>\<open>.get\<close> before, so these three calls cannot raise; the model keeps the checks.
\<close>

definition build_xml_data :: "json \<Rightarrow> json \<Rightarrow> json \<Rightarrow> currency_info \<Rightarrow> py_error + xml_data" where
  "build_xml_data country_data name_data lname currency_info =
     (case dict_get country_data ''cca2'' (JStr []) of
        Inl e \<Rightarrow> Inl e
      | Inr c \<Rightarrow>
          (case dict_get name_data ''official'' (JStr []) of
             Inl e \<Rightarrow> Inl e
           | Inr off \<Rightarrow>
               (case dict_get name_data ''common'' (JStr []) of
                  Inl e \<Rightarrow> Inl e
                | Inr com \<Rightarrow>
                    Inr \<lparr>code = c, original_name = off, common_name = com,
                         local_name = lname, currency = currency_info\<rparr>)))"

text \<open>\<^verbatim>\<open>ImprovedCountryXMLGenerator.extract_xml_data\<close>.\<close>

definition extract_xml_data :: "json \<Rightarrow> py_error + xml_data" where
  "extract_xml_data country_data =
     (case dict_get country_data ''name'' (JObj []) of
        Inl e \<Rightarrow> Inl e
      | Inr name_data \<Rightarrow>
     (case dict_get country_data ''currencies'' (JObj []) of
        Inl e \<Rightarrow> Inl e
      | Inr currencies \<Rightarrow>
     (case dict_get name_data ''nativeName'' (JObj []) of
        Inl e \<Rightarrow> Inl e
      | Inr native_names \<Rightarrow>
     (case priority_loop language_priority native_names of
        Inl e \<Rightarrow> Inl e
      | Inr found \<Rightarrow>
     (case (if \<not> truthy found \<and> truthy native_names
            then first_available native_names else Inr found) of
        Inl e \<Rightarrow> Inl e
      | Inr lname \<Rightarrow>
     (case extract_currency currencies of
        Inl e \<Rightarrow> Inl e
      | Inr currency_info \<Rightarrow>
          build_xml_data country_data name_data lname currency_info))))))"

text \<open>
  \<^verbatim>\<open>CountryXMLGenerator.extract_xml_data\<close> of \<^verbatim>\<open>simple_xml_generator.py\<close>: the native
  name is chosen by an \<^verbatim>\<open>if/elif\<close> chain over Hindi, Japanese and the first key.
\<close>

definition simple_local_name :: "json \<Rightarrow> py_error + json" where
  "simple_local_name native_names =
     (case py_in ''hin'' native_names of
        Inl e \<Rightarrow> Inl e
      | Inr True \<Rightarrow>
          (case py_getitem native_names ''hin'' of
             Inl e \<Rightarrow> Inl e
           | Inr entry \<Rightarrow> dict_get entry ''official'' (JStr []))
      | Inr False \<Rightarrow>
          (case py_in ''jpn'' native_names of
             Inl e \<Rightarrow> Inl e
           | Inr True \<Rightarrow>
               (case py_getitem native_names ''jpn'' of
                  Inl e \<Rightarrow> Inl e
                | Inr entry \<Rightarrow> dict_get entry ''official'' (JStr []))
           | Inr False \<Rightarrow>
               (if truthy native_names then first_available native_names
                else Inr (JStr []))))"

definition simple_extract_xml_data :: "json \<Rightarrow> py_error + xml_data" where
  "simple_extract_xml_data country_data =
     (case dict_get country_data ''name'' (JObj []) of
        Inl e \<Rightarrow> Inl e
      | Inr name_data \<Rightarrow>
     (case dict_get country_data ''currencies'' (JObj []) of
        Inl e \<Rightarrow> Inl e
      | Inr currencies \<Rightarrow>
     (case dict_get name_data ''nativeName'' (JObj []) of
        Inl e \<Rightarrow> Inl e
      | Inr native_names \<Rightarrow>
     (case simple_local_name native_names of
        Inl e \<Rightarrow> Inl e
      | Inr lname \<Rightarrow>
     (case extract_currency currencies of
        Inl e \<Rightarrow> Inl e
      | Inr currency_info \<Rightarrow>
          build_xml_data country_data name_data lname currency_info)))))"

section \<open>The Fetcher\<close>

text \<open>
  The network is a parameter: \<open>api name\<close> is what the three calls
  \<^verbatim>\<open>session.get(url)\<close>, \<^verbatim>\<open>response.raise_for_status()\<close> and \<^verbatim>\<open>response.json()\<close> give for
  the URL of \<open>name\<close>, either the exception one of them raises or the decoded body.
  The progress messages printed on the way are left out.
\<close>

type_synonym api = "string \<Rightarrow> py_error + json"

text \<open>
  Lines 42 and 43: \<^verbatim>\<open>if data and len(data) > 0: countries_data.append(data[0])\<close>. A
  non-empty list gives its first element and a non-empty string its first character;
  a non-empty dict has length above zero and no key \<^verbatim>\<open>0\<close>; a number or a boolean
  that is true has no \<^verbatim>\<open>len\<close>.
\<close>

fun take_first :: "json \<Rightarrow> py_error + json option" where
  "take_first JNull = Inr None"
| "take_first (JBool b) = (if b then Inl TypeError else Inr None)"
| "take_first (JNum n) = (if n \<noteq> 0 then Inl TypeError else Inr None)"
| "take_first (JStr []) = Inr None"
| "take_first (JStr (c # cs)) = Inr (Some (JStr [c]))"
| "take_first (JArr []) = Inr None"
| "take_first (JArr (x # xs)) = Inr (Some x)"
| "take_first (JObj []) = Inr None"
| "take_first (JObj (kv # kvs)) = Inl KeyError"

text \<open>
  The loop of \<^verbatim>\<open>fetch_country_data\<close>, with \<^verbatim>\<open>countries_data\<close> as accumulator. The
  \<^verbatim>\<open>except\<close> clause names \<^verbatim>\<open>RequestException\<close> only: every other exception raised
  in the \<^verbatim>\<open>try\<close> block leaves the function.
\<close>

fun fetch_loop :: "api \<Rightarrow> string list \<Rightarrow> json list \<Rightarrow> py_error + json list" where
  "fetch_loop api [] countries_data = Inr countries_data"
| "fetch_loop api (country_name # rest) countries_data =
     (case api country_name of
        Inl e \<Rightarrow>
          (if e = RequestException then fetch_loop api rest countries_data else Inl e)
      | Inr data \<Rightarrow>
          (case take_first data of
             Inl e \<Rightarrow>
               (if e = RequestException then fetch_loop api rest countries_data else Inl e)
           | Inr None \<Rightarrow> fetch_loop api rest countries_data
           | Inr (Some r) \<Rightarrow> fetch_loop api rest (countries_data @ [r])))"

definition fetch_country_data :: "api \<Rightarrow> string list \<Rightarrow> py_error + json list" where
  "fetch_country_data api country_names = fetch_loop api country_names []"

text \<open>
  The Fetcher as the specification words it: one lookup per name, the first element of
  each non-empty result list, names that fail or give an empty list left out, in order.
\<close>

definition first_records :: "api \<Rightarrow> string list \<Rightarrow> json list" where
  "first_records api names =
     concat (map (\<lambda>n. case api n of Inr (JArr (x # xs)) \<Rightarrow> [x] | _ \<Rightarrow> []) names)"

section \<open>The Formatter of \<^verbatim>\<open>improved_xml_generator.py\<close>\<close>

definition xml_declaration :: string where
  \<open>xml_declaration = ''<?xml version="1.0" encoding="UTF-8"?>''\<close>

text \<open>The twelve lines of one country, lines 111 to 124; the last one is empty.\<close>

definition country_block :: "xml_data \<Rightarrow> string list" where
  "country_block d =
     [''  <Countries>'',
      ''    <Code>'' @ py_str (code d) @ ''</Code>'',
      ''    <OriginalName>'' @ py_str (original_name d) @ ''</OriginalName>'',
      ''    <CommonName>'' @ py_str (common_name d) @ ''</CommonName>'',
      ''    <LocalName>'' @ py_str (local_name d) @ ''</LocalName>'',
      ''    <OfficialCurrency>'',
      ''      <Code>'' @ py_str (currency_code (currency d)) @ ''</Code>'',
      ''      <Name>'' @ py_str (currency_name (currency d)) @ ''</Name>'',
      ''      <Symbol>'' @ py_str (currency_symbol (currency d)) @ ''</Symbol>'',
      ''    </OfficialCurrency>'',
      ''  </Countries>'',
      []]"

text \<open>The loop of lines 107 to 124, extending \<^verbatim>\<open>xml_lines\<close>.\<close>

fun format_loop :: "json list \<Rightarrow> string list \<Rightarrow> py_error + string list" where
  "format_loop [] xml_lines = Inr xml_lines"
| "format_loop (country_data # rest) xml_lines =
     (case extract_xml_data country_data of
        Inl e \<Rightarrow> Inl e
      | Inr d \<Rightarrow> format_loop rest (xml_lines @ country_block d))"

definition xml_lines :: "json list \<Rightarrow> py_error + string list" where
  "xml_lines countries_data =
     (case format_loop countries_data [xml_declaration, ''<CountriesCollection>''] of
        Inl e \<Rightarrow> Inl e
      | Inr ls \<Rightarrow> Inr (ls @ [''</CountriesCollection>'']))"

definition final_xml :: "json list \<Rightarrow> py_error + string" where
  "final_xml countries_data =
     (case xml_lines countries_data of
        Inl e \<Rightarrow> Inl e
      | Inr ls \<Rightarrow> Inr (join [CHR 0x0A] ls))"

section \<open>Records with fields absent\<close>

text \<open>
  The shape of a record that the lookup endpoint documents, with any of its fields
  absent: the record is a mapping; \<^verbatim>\<open>name\<close>, when present, is a mapping;
  \<^verbatim>\<open>nativeName\<close> and \<^verbatim>\<open>currencies\<close>, when present, are mappings whose values are
  mappings. The leaves are not constrained.
\<close>

fun is_dict :: "json \<Rightarrow> bool" where
  "is_dict (JObj kvs) = True"
| "is_dict _ = False"

fun dict_of_dicts :: "json \<Rightarrow> bool" where
  "dict_of_dicts (JObj kvs) = list_all (\<lambda>kv. is_dict (snd kv)) kvs"
| "dict_of_dicts _ = False"

text \<open>\<open>field r k\<close> is the value under key \<open>k\<close>, \<open>None\<close> when the key is absent.\<close>

fun field :: "json \<Rightarrow> string \<Rightarrow> json option" where
  "field (JObj kvs) k = map_of kvs k"
| "field _ k = None"

definition nested :: "json \<Rightarrow> string \<Rightarrow> string \<Rightarrow> json option" where
  "nested r a b = (case field r a of None \<Rightarrow> None | Some v \<Rightarrow> field v b)"

definition well_shaped :: "json \<Rightarrow> bool" where
  "well_shaped r =
     (is_dict r
      \<and> (case field r ''name'' of
            None \<Rightarrow> True
          | Some name_data \<Rightarrow>
              is_dict name_data
              \<and> (case field name_data ''nativeName'' of
                    None \<Rightarrow> True
                  | Some native_names \<Rightarrow> dict_of_dicts native_names))
      \<and> (case field r ''currencies'' of
            None \<Rightarrow> True
          | Some currencies \<Rightarrow> dict_of_dicts currencies))"

definition empty_currency :: currency_info where
  "empty_currency =
     \<lparr>currency_code = JStr [], currency_name = JStr [], currency_symbol = JStr []\<rparr>"

text \<open>
  The value read for a field that may be absent, as \<^verbatim>\<open>.get(key, "")\<close> gives it, and the
  text the Formatter writes for it.
\<close>

definition or_empty :: "json option \<Rightarrow> json" where
  "or_empty v = (case v of None \<Rightarrow> JStr [] | Some w \<Rightarrow> w)"

definition text_of :: "json option \<Rightarrow> string" where
  "text_of v = py_str (or_empty v)"

section \<open>Sample records\<close>

definition bare_record :: json where
  "bare_record = JObj []"

definition unnamed_currency_record :: json where
  "unnamed_currency_record = JObj [(''currencies'', JObj [(''XTS'', JObj [])])]"

definition india_empty_hindi :: json where
  "india_empty_hindi =
     JObj [(''name'', JObj [(''nativeName'',
        JObj [(''eng'', JObj [(''official'', JStr ''Republic of India'')]),
              (''hin'', JObj [(''official'', JStr [])])])])]"

definition japan_record :: json where
  "japan_record =
     JObj [(''cca2'', JStr ''JP''),
           (''name'', JObj [(''official'', JStr ''Japan''), (''common'', JStr ''Japan'')]),
           (''currencies'', JObj [(''JPY'', JObj [(''name'', JStr ''Japanese yen'')])])]"

section \<open>Lookups that answer as documented\<close>

text \<open>
  The endpoint is documented to return a list of records. \<open>lists_or_fails api names\<close>
  says that every lookup of \<open>names\<close> either raises a request exception or returns a
  list, empty or not.
\<close>

definition lists_or_fails :: "api \<Rightarrow> string list \<Rightarrow> bool" where
  "lists_or_fails api names =
     list_all (\<lambda>n. case api n of Inl e \<Rightarrow> e = RequestException
                                | Inr (JArr xs) \<Rightarrow> True
                                | Inr _ \<Rightarrow> False) names"

text \<open>
  Two sample networks. The first knows Japan and India, has an empty answer for
  Atlantis and fails on every other name; the second answers Japan with a body that is
  not JSON.
\<close>

definition sample_api :: api where
  "sample_api n =
     (if n = ''japan'' then Inr (JArr [japan_record])
      else if n = ''india'' then Inr (JArr [india_empty_hindi, bare_record])
      else if n = ''atlantis'' then Inr (JArr [])
      else Inl RequestException)"

definition garbled_api :: api where
  "garbled_api n =
     (if n = ''japan'' then Inl JSONDecodeError
      else if n = ''india'' then Inr (JArr [india_empty_hindi])
      else Inl RequestException)"

section \<open>The file system\<close>

text \<open>
  Both generators end with \<^verbatim>\<open>os.makedirs(os.path.dirname(output_file), exist_ok=True)\<close>
  and \<^verbatim>\<open>open(output_file, 'w')\<close>. The file system is a tree of directories and text
  files, addressed by the list of names from the root, together with the working
  directory of the process. It is a Linux file system: a name has at most 255 bytes and
  a path fewer than 4096. There are no symbolic links, every directory may be searched
  and written, and neither the disk nor the stack of the interpreter is ever full.
\<close>

datatype node = Dir | File string

record filesystem =
  cwd :: "string list"
  nodes :: "string list \<Rightarrow> node option"

text \<open>\<^verbatim>\<open>head.rstrip('/')\<close>, and the test \<^verbatim>\<open>head != '/' * len(head)\<close>.\<close>

definition rstrip_sep :: "string \<Rightarrow> string" where
  "rstrip_sep s = rev (dropWhile (\<lambda>c. c = CHR ''/'') (rev s))"

definition all_sep :: "string \<Rightarrow> bool" where
  "all_sep s = list_all (\<lambda>c. c = CHR ''/'') s"

text \<open>
  \<^verbatim>\<open>posixpath.split\<close>: with \<^verbatim>\<open>i = p.rfind('/') + 1\<close>, the head is \<^verbatim>\<open>p[:i]\<close> without its
  trailing slashes, unless it consists of slashes only, and the tail is \<^verbatim>\<open>p[i:]\<close>.
  \<^verbatim>\<open>posixpath.dirname\<close> computes the same head.
\<close>

definition path_head :: "string \<Rightarrow> string" where
  "path_head p =
     (let head = rev (dropWhile (\<lambda>c. c \<noteq> CHR ''/'') (rev p))
      in if head \<noteq> [] \<and> \<not> all_sep head then rstrip_sep head else head)"

definition path_tail :: "string \<Rightarrow> string" where
  "path_tail p = rev (takeWhile (\<lambda>c. c \<noteq> CHR ''/'') (rev p))"

definition os_path_split :: "string \<Rightarrow> string \<times> string" where
  "os_path_split p = (path_head p, path_tail p)"

definition os_path_dirname :: "string \<Rightarrow> string" where
  "os_path_dirname p = path_head p"

text \<open>
  Path resolution. The names between the slashes are followed from the root, for a
  path that starts with a slash, or from the working directory. Each step needs the
  place reached so far to be a directory; an empty name and \<^verbatim>\<open>.\<close> stay there,
  \<^verbatim>\<open>..\<close> goes to the parent, and any other name must have no more than 255 bytes.
  The place reached by the last name need not exist.
\<close>

text \<open>
  What is wrong with a path before any name of it is looked up: Python refuses a path
  with a NUL character, the empty path names nothing, and the system refuses a path of
  4096 bytes or more. A character takes one byte in UTF-8 below 128 and two bytes from
  there to 255.
\<close>

definition byte_length :: "string \<Rightarrow> nat" where
  "byte_length s = sum_list (map (\<lambda>c. if (of_char c :: nat) < 128 then 1 else 2) s)"

definition check_path :: "string \<Rightarrow> py_error option" where
  "check_path p =
     (if CHR 0x00 \<in> set p then Some ValueError
      else if p = [] then Some FileNotFoundError
      else if 4096 \<le> byte_length p then Some OSError
      else None)"

fun split_sep :: "string \<Rightarrow> string list" where
  "split_sep [] = [[]]"
| "split_sep (c # cs) =
     (if c = CHR ''/'' then [] # split_sep cs
      else (case split_sep cs of [] \<Rightarrow> [[c]] | x # xs \<Rightarrow> (c # x) # xs))"

fun walk :: "(string list \<Rightarrow> node option) \<Rightarrow> string list \<Rightarrow> string list
               \<Rightarrow> py_error + string list" where
  "walk t cur [] = Inr cur"
| "walk t cur (c # cs) =
     (case t cur of
        None \<Rightarrow> Inl FileNotFoundError
      | Some (File content) \<Rightarrow> Inl NotADirectoryError
      | Some Dir \<Rightarrow>
          (if c = [] \<or> c = ''.'' then walk t cur cs
           else if c = ''..'' then walk t (butlast cur) cs
           else if 255 < byte_length c then Inl OSError
           else walk t (cur @ [c]) cs))"

definition resolve :: "filesystem \<Rightarrow> string \<Rightarrow> py_error + string list" where
  "resolve fs p =
     (case check_path p of
        Some e \<Rightarrow> Inl e
      | None \<Rightarrow> walk (nodes fs) (if hd p = CHR ''/'' then [] else cwd fs) (split_sep p))"

text \<open>
  \<^verbatim>\<open>os.path.exists\<close> and \<^verbatim>\<open>os.path.isdir\<close>: a failing \<^verbatim>\<open>stat\<close> gives \<^verbatim>\<open>False\<close>,
  whether it raises an \<^verbatim>\<open>OSError\<close> or a \<^verbatim>\<open>ValueError\<close>.
\<close>

definition stat :: "filesystem \<Rightarrow> string \<Rightarrow> py_error + node" where
  "stat fs p =
     (case resolve fs p of
        Inl e \<Rightarrow> Inl e
      | Inr q \<Rightarrow> (case nodes fs q of None \<Rightarrow> Inl FileNotFoundError | Some n \<Rightarrow> Inr n))"

definition os_path_exists :: "filesystem \<Rightarrow> string \<Rightarrow> bool" where
  "os_path_exists fs p = (case stat fs p of Inl e \<Rightarrow> False | Inr n \<Rightarrow> True)"

definition os_path_isdir :: "filesystem \<Rightarrow> string \<Rightarrow> bool" where
  "os_path_isdir fs p = (case stat fs p of Inr Dir \<Rightarrow> True | _ \<Rightarrow> False)"

text \<open>
  The operations that change the file system return the exception raised, if any, and
  the file system they leave.

  \<^verbatim>\<open>os.mkdir\<close>: trailing slashes do not count; the place must be free and its parent a
  directory.
\<close>

definition os_mkdir :: "string \<Rightarrow> filesystem \<Rightarrow> py_error option \<times> filesystem" where
  "os_mkdir name fs =
     (case (case check_path name of
              Some e \<Rightarrow> Inl e
            | None \<Rightarrow> resolve fs (if all_sep name then name else rstrip_sep name)) of
        Inl e \<Rightarrow> (Some e, fs)
      | Inr q \<Rightarrow>
          (case nodes fs q of
             Some n \<Rightarrow> (Some FileExistsError, fs)
           | None \<Rightarrow>
               (case nodes fs (butlast q) of
                  None \<Rightarrow> (Some FileNotFoundError, fs)
                | Some (File content) \<Rightarrow> (Some NotADirectoryError, fs)
                | Some Dir \<Rightarrow> (None, fs\<lparr>nodes := (nodes fs)(q \<mapsto> Dir)\<rparr>))))"

text \<open>
  The end of \<^verbatim>\<open>os.makedirs\<close>, with \<^verbatim>\<open>exist_ok=True\<close>:
  \<^verbatim>\<open>try: mkdir(name, mode)\<close>, \<^verbatim>\<open>except OSError: if not exist_ok or not path.isdir(name): raise\<close>.
  A \<^verbatim>\<open>ValueError\<close> is no \<^verbatim>\<open>OSError\<close> and is not caught.
\<close>

definition mkdir_exist_ok :: "string \<Rightarrow> filesystem \<Rightarrow> py_error option \<times> filesystem" where
  "mkdir_exist_ok name fs =
     (case os_mkdir name fs of
        (None, fs') \<Rightarrow> (None, fs')
      | (Some e, fs') \<Rightarrow>
          (if e \<noteq> ValueError \<and> os_path_isdir fs' name then (None, fs') else (Some e, fs')))"

text \<open>
  The head and the tail that \<^verbatim>\<open>os.makedirs\<close> works with:
  \<^verbatim>\<open>head, tail = path.split(name)\<close>, then \<^verbatim>\<open>if not tail: head, tail = path.split(head)\<close>.
\<close>

definition makedirs_head :: "string \<Rightarrow> string" where
  "makedirs_head name =
     (if path_tail name = [] then path_head (path_head name) else path_head name)"

definition makedirs_tail :: "string \<Rightarrow> string" where
  "makedirs_tail name =
     (if path_tail name = [] then path_tail (path_head name) else path_tail name)"

text \<open>
  \<^verbatim>\<open>os.makedirs(name, exist_ok=True)\<close>: when the head is missing it is made first, a
  \<^verbatim>\<open>FileExistsError\<close> of that call being passed over, and nothing more is done when
  the tail is \<^verbatim>\<open>.\<close>; then the directory itself is made.
\<close>

function os_makedirs :: "string \<Rightarrow> filesystem \<Rightarrow> py_error option \<times> filesystem" where
  "os_makedirs name fs =
     (if makedirs_head name \<noteq> [] \<and> makedirs_tail name \<noteq> []
         \<and> \<not> os_path_exists fs (makedirs_head name)
      then (case os_makedirs (makedirs_head name) fs of
              (None, fs') \<Rightarrow>
                (if makedirs_tail name = ''.'' then (None, fs') else mkdir_exist_ok name fs')
            | (Some e, fs') \<Rightarrow>
                (if e = FileExistsError
                 then (if makedirs_tail name = ''.'' then (None, fs')
                       else mkdir_exist_ok name fs')
                 else (Some e, fs')))
      else mkdir_exist_ok name fs)"
  by pat_completeness auto
termination
proof (relation "measure (\<lambda>(name, fs). length name)")
  show "wf (measure (\<lambda>(name, fs). length name))" by simp
next
  fix name :: string and fs :: filesystem
  assume a: "makedirs_head name \<noteq> [] \<and> makedirs_tail name \<noteq> []
             \<and> \<not> os_path_exists fs (makedirs_head name)"
  have rs: "\<And>s. length (rstrip_sep s) \<le> length s"
    by (simp add: rstrip_sep_def) (metis length_dropWhile_le length_rev)
  have ht: "\<And>p. length (path_head p) + length (path_tail p) \<le> length p"
  proof -
    fix p :: string
    let ?h = "rev (dropWhile (\<lambda>c. c \<noteq> CHR ''/'') (rev p))"
    have "length ?h + length (path_tail p) = length p"
      unfolding path_tail_def
      by (metis add.commute length_append length_rev takeWhile_dropWhile_id)
    moreover have "length (path_head p) \<le> length ?h"
      using rs [of ?h] by (simp add: path_head_def Let_def)
    ultimately show "length (path_head p) + length (path_tail p) \<le> length p" by simp
  qed
  have "length (makedirs_head name) + length (makedirs_tail name) \<le> length name"
  proof (cases "path_tail name = []")
    case True
    have "length (path_head (path_head name)) + length (path_tail (path_head name))
            \<le> length (path_head name)" by (rule ht)
    also have "\<dots> \<le> length name" using ht [of name] by simp
    finally show ?thesis using True by (simp add: makedirs_head_def makedirs_tail_def)
  next
    case False
    then show ?thesis using ht [of name] by (simp add: makedirs_head_def makedirs_tail_def)
  qed
  moreover from a have "makedirs_tail name \<noteq> []" by simp
  ultimately have "length (makedirs_head name) < length name"
    by (cases "makedirs_tail name") simp_all
  then show "((makedirs_head name, fs), (name, fs)) \<in> measure (\<lambda>(name, fs). length name)"
    by simp
qed

declare os_makedirs.simps [simp del]

text \<open>
  \<^verbatim>\<open>with open(output_file, 'w', encoding='utf-8') as f: f.write(final_xml)\<close>. A path
  that ends with a slash names a directory and cannot be opened for writing; otherwise
  the file is created in an existing directory, or replaced.
\<close>

definition write_file :: "string \<Rightarrow> string \<Rightarrow> filesystem \<Rightarrow> py_error option \<times> filesystem" where
  "write_file path content fs =
     (if check_path path \<noteq> None then (check_path path, fs)
      else if last path = CHR ''/'' then
        (case resolve fs (if all_sep path then path else rstrip_sep path) of
           Inl e \<Rightarrow> (Some e, fs)
         | Inr q \<Rightarrow>
             (case nodes fs q of
                Some (File old) \<Rightarrow> (Some NotADirectoryError, fs)
              | _ \<Rightarrow> (Some IsADirectoryError, fs)))
      else
        (case resolve fs path of
           Inl e \<Rightarrow> (Some e, fs)
         | Inr q \<Rightarrow>
             (case nodes fs q of
                Some Dir \<Rightarrow> (Some IsADirectoryError, fs)
              | Some (File old) \<Rightarrow> (None, fs\<lparr>nodes := (nodes fs)(q \<mapsto> File content)\<rparr>)
              | None \<Rightarrow>
                  (case nodes fs (butlast q) of
                     None \<Rightarrow> (Some FileNotFoundError, fs)
                   | Some (File old) \<Rightarrow> (Some NotADirectoryError, fs)
                   | Some Dir \<Rightarrow> (None, fs\<lparr>nodes := (nodes fs)(q \<mapsto> File content)\<rparr>)))))"

text \<open>Reading a file back, as \<^verbatim>\<open>ET.parse(output_path)\<close> does first.\<close>

definition read_file :: "filesystem \<Rightarrow> string \<Rightarrow> py_error + string" where
  "read_file fs path =
     (case stat fs path of
        Inl e \<Rightarrow> Inl e
      | Inr Dir \<Rightarrow> Inl IsADirectoryError
      | Inr (File content) \<Rightarrow> Inr content)"

section \<open>Writing the document\<close>

text \<open>
  \<^verbatim>\<open>generate_formatted_xml\<close> of \<^verbatim>\<open>improved_xml_generator.py\<close>, lines 95 to 140: the
  document is built, the directory of the output path is made, the file is written and
  the path is returned.
\<close>

definition generate_formatted_xml ::
    "json list \<Rightarrow> string \<Rightarrow> filesystem \<Rightarrow> (py_error + string) \<times> filesystem" where
  "generate_formatted_xml countries_data output_file fs =
     (case final_xml countries_data of
        Inl e \<Rightarrow> (Inl e, fs)
      | Inr xml \<Rightarrow>
          (case os_makedirs (os_path_dirname output_file) fs of
             (Some e, fs1) \<Rightarrow> (Inl e, fs1)
           | (None, fs1) \<Rightarrow>
               (case write_file output_file xml fs1 of
                  (Some e, fs2) \<Rightarrow> (Inl e, fs2)
                | (None, fs2) \<Rightarrow> (Inr output_file, fs2))))"

text \<open>
  \<^verbatim>\<open>generate_countries_xml\<close>, lines 142 to 155: the records are fetched, and
  \<^verbatim>\<open>if not countries_data: return None\<close> comes before the Formatter is called.
\<close>

definition generate_countries_xml ::
    "api \<Rightarrow> string list \<Rightarrow> string \<Rightarrow> filesystem
       \<Rightarrow> (py_error + string option) \<times> filesystem" where
  "generate_countries_xml api country_names output_file fs =
     (case fetch_country_data api country_names of
        Inl e \<Rightarrow> (Inl e, fs)
      | Inr countries_data \<Rightarrow>
          (if countries_data = [] then (Inr None, fs)
           else (case generate_formatted_xml countries_data output_file fs of
                   (Inl e, fs') \<Rightarrow> (Inl e, fs')
                 | (Inr p, fs') \<Rightarrow> (Inr (Some p), fs'))))"

section \<open>The Formatter of \<^verbatim>\<open>simple_xml_generator.py\<close>\<close>

text \<open>
  \<^verbatim>\<open>str.replace(old, new)\<close>: the occurrences of \<open>old\<close> are replaced from left to right,
  without overlap; for an empty \<open>old\<close>, \<open>new\<close> is put before every character and at
  the end.
\<close>

function py_replace :: "string \<Rightarrow> string \<Rightarrow> string \<Rightarrow> string" where
  "py_replace old new [] = (if old = [] then new else [])"
| "py_replace old new (c # cs) =
     (if old = [] then new @ c # py_replace old new cs
      else if starts_with old (c # cs)
      then new @ py_replace old new (drop (length old - 1) cs)
      else c # py_replace old new cs)"
  by pat_completeness auto
termination
  by (relation "measure (\<lambda>(old, new, s). length s)") auto

text \<open>
  An element of \<^verbatim>\<open>xml.etree.ElementTree\<close>: its tag, its text (\<open>None\<close> until it is
  set) and its children. The generator sets no attribute and no tail.
\<close>

datatype element = Element string "string option" "element list"

text \<open>
  \<^verbatim>\<open>_escape_cdata\<close>: \<^verbatim>\<open>&\<close>, \<^verbatim>\<open><\<close> and \<^verbatim>\<open>>\<close> are replaced, in this order.
\<close>

definition escape_cdata :: "string \<Rightarrow> string" where
  "escape_cdata text =
     py_replace ''>'' ''&gt;'' (py_replace ''<'' ''&lt;'' (py_replace ''&'' ''&amp;'' text))"

text \<open>
  \<^verbatim>\<open>ET.tostring(root, encoding='unicode')\<close>, that is \<^verbatim>\<open>_serialize_xml\<close> with short empty
  elements: an element with no text and no child is written \<^verbatim>\<open><tag />\<close>.
\<close>

fun serialize :: "element \<Rightarrow> string" where
  "serialize (Element tag text children) =
     (if (case text of None \<Rightarrow> False | Some t \<Rightarrow> t \<noteq> []) \<or> children \<noteq> []
      then ''<'' @ tag @ ''>''
           @ (case text of None \<Rightarrow> [] | Some t \<Rightarrow> escape_cdata t)
           @ concat (map serialize children)
           @ ''</'' @ tag @ ''>''
      else ''<'' @ tag @ '' />'')"

text \<open>
  \<^verbatim>\<open>create_xml_element\<close>, lines 115 to 130, gives the new child of \<open>parent\<close>:
  \<^verbatim>\<open>if text: element.text = str(text)\<close>.
\<close>

definition create_xml_element :: "string \<Rightarrow> json \<Rightarrow> element" where
  "create_xml_element tag text =
     Element tag (if truthy text then Some (py_str text) else None) []"

text \<open>The \<^verbatim>\<open>Countries\<close> element of one record, lines 149 to 163.\<close>

definition country_elem :: "xml_data \<Rightarrow> element" where
  "country_elem d =
     Element ''Countries'' None
       [create_xml_element ''Code'' (code d),
        create_xml_element ''OriginalName'' (original_name d),
        create_xml_element ''CommonName'' (common_name d),
        create_xml_element ''LocalName'' (local_name d),
        Element ''OfficialCurrency'' None
          [create_xml_element ''Code'' (currency_code (currency d)),
           create_xml_element ''Name'' (currency_name (currency d)),
           create_xml_element ''Symbol'' (currency_symbol (currency d))]]"

text \<open>The loop of lines 145 to 163, with the children of the root as accumulator.\<close>

fun simple_loop :: "json list \<Rightarrow> element list \<Rightarrow> py_error + element list" where
  "simple_loop [] children = Inr children"
| "simple_loop (country_data # rest) children =
     (case simple_extract_xml_data country_data of
        Inl e \<Rightarrow> Inl e
      | Inr d \<Rightarrow> simple_loop rest (children @ [country_elem d]))"

text \<open>
  Lines 165 to 172: the tree is written out, the tags of the temporary root are
  removed and the declaration is put in front.

  The \<^verbatim>\<open>try\<close> block of lines 174 to 187 never changes this string: a
  \<^verbatim>\<open>minidom\<close> element has no attribute \<^verbatim>\<open>innerHTML\<close>, so when \<^verbatim>\<open>parseString\<close> has not
  raised already, line 181 raises \<^verbatim>\<open>AttributeError\<close> before the assignment of line
  182, and \<^verbatim>\<open>except Exception\<close> goes on with the string of line 172.
\<close>

definition simple_xml_str :: "json list \<Rightarrow> py_error + string" where
  "simple_xml_str countries_data =
     (case simple_loop countries_data [] of
        Inl e \<Rightarrow> Inl e
      | Inr children \<Rightarrow>
          Inr (py_replace ''</root>'' []
                 (py_replace ''<root>'' [] (serialize (Element ''root'' None children)))))"

definition simple_final_xml :: "json list \<Rightarrow> py_error + string" where
  "simple_final_xml countries_data =
     (case simple_xml_str countries_data of
        Inl e \<Rightarrow> Inl e
      | Inr xml_str \<Rightarrow> Inr (xml_declaration @ [CHR 0x0A] @ xml_str))"

text \<open>\<^verbatim>\<open>generate_xml\<close>, lines 132 to 198, and \<^verbatim>\<open>generate_countries_xml\<close> after it.\<close>

definition generate_xml ::
    "json list \<Rightarrow> string \<Rightarrow> filesystem \<Rightarrow> (py_error + string) \<times> filesystem" where
  "generate_xml countries_data output_file fs =
     (case simple_final_xml countries_data of
        Inl e \<Rightarrow> (Inl e, fs)
      | Inr xml \<Rightarrow>
          (case os_makedirs (os_path_dirname output_file) fs of
             (Some e, fs1) \<Rightarrow> (Inl e, fs1)
           | (None, fs1) \<Rightarrow>
               (case write_file output_file xml fs1 of
                  (Some e, fs2) \<Rightarrow> (Inl e, fs2)
                | (None, fs2) \<Rightarrow> (Inr output_file, fs2))))"

definition simple_generate_countries_xml ::
    "api \<Rightarrow> string list \<Rightarrow> string \<Rightarrow> filesystem
       \<Rightarrow> (py_error + string option) \<times> filesystem" where
  "simple_generate_countries_xml api country_names output_file fs =
     (case fetch_country_data api country_names of
        Inl e \<Rightarrow> (Inl e, fs)
      | Inr countries_data \<Rightarrow>
          (if countries_data = [] then (Inr None, fs)
           else (case generate_xml countries_data output_file fs of
                   (Inl e, fs') \<Rightarrow> (Inl e, fs')
                 | (Inr p, fs') \<Rightarrow> (Inr (Some p), fs'))))"

section \<open>Reading a document back\<close>

text \<open>
  \<^verbatim>\<open>ET.parse\<close> on the documents the generators can write: an optional declaration, as
  the generators write it, and elements with character data and the five predefined
  entity references. Attributes, names with a colon, comments, processing instructions,
  CDATA sections, document type declarations and character references are outside the
  model: on a
  document that has one before its first error the model says nothing (\<open>None\<close>).
  \<open>Some (Inl ParseError)\<close> says that the document is not well-formed.
\<close>

definition is_space :: "char \<Rightarrow> bool" where
  "is_space c = (c = CHR '' '' \<or> c = CHR 0x09 \<or> c = CHR 0x0A \<or> c = CHR 0x0D)"

text \<open>The characters of XML 1.0 among the first 256 code points, and those of names.\<close>

definition is_xml_char :: "char \<Rightarrow> bool" where
  "is_xml_char c = (32 \<le> (of_char c :: nat) \<or> is_space c)"

definition is_name_start :: "char \<Rightarrow> bool" where
  "is_name_start c =
     (let n = (of_char c :: nat)
      in (65 \<le> n \<and> n \<le> 90) \<or> (97 \<le> n \<and> n \<le> 122) \<or> c = CHR ''_'' \<or> c = CHR '':''
         \<or> (192 \<le> n \<and> n \<le> 214) \<or> (216 \<le> n \<and> n \<le> 246) \<or> 248 \<le> n)"

definition is_name_char :: "char \<Rightarrow> bool" where
  "is_name_char c =
     (is_name_start c \<or> c = CHR ''-'' \<or> c = CHR ''.''
      \<or> (48 \<le> (of_char c :: nat) \<and> (of_char c :: nat) \<le> 57) \<or> (of_char c :: nat) = 183)"

definition entity :: "string \<Rightarrow> char option" where
  "entity name =
     (if name = ''amp'' then Some (CHR ''&'')
      else if name = ''lt'' then Some (CHR ''<'')
      else if name = ''gt'' then Some (CHR ''>'')
      else if name = ''quot'' then Some (CHR 0x22)
      else if name = ''apos'' then Some (CHR 0x27)
      else None)"

datatype token = TStart string | TEnd string | TEmpty string | TChar char

definition cons_token ::
    "token \<Rightarrow> (py_error + token list) option \<Rightarrow> (py_error + token list) option" where
  "cons_token t r =
     (case r of
        None \<Rightarrow> None
      | Some (Inl e) \<Rightarrow> Some (Inl e)
      | Some (Inr ts) \<Rightarrow> Some (Inr (t # ts)))"

text \<open>
  The tokens of the content, from left to right. A \<^verbatim>\<open><\<close> opens a start tag, an end
  tag or an empty-element tag, and nothing else is well-formed after it; an \<^verbatim>\<open>&\<close>
  opens a reference to one of the predefined entities; \<^verbatim>\<open>]]>\<close> and the control
  characters other than tab, line feed and carriage return may not occur. A carriage
  return, with the line feed after it if there is one, is read as a line feed.
\<close>

function tokenize :: "string \<Rightarrow> (py_error + token list) option" where
  "tokenize [] = Some (Inr [])"
| "tokenize (c # cs) =
     (if c = CHR ''<'' then
        (case cs of
           [] \<Rightarrow> Some (Inl ParseError)
         | d # ds \<Rightarrow>
             if d = CHR ''!'' \<or> d = CHR ''?'' then None
             else if d = CHR ''/'' then
               (if ds \<noteq> [] \<and> is_name_start (hd ds) then
                  (if CHR '':'' \<in> set (takeWhile is_name_char ds) then None else
                   case dropWhile is_space (dropWhile is_name_char ds) of
                     [] \<Rightarrow> Some (Inl ParseError)
                   | e # es \<Rightarrow>
                       if e = CHR ''>''
                       then cons_token (TEnd (takeWhile is_name_char ds)) (tokenize es)
                       else Some (Inl ParseError))
                else Some (Inl ParseError))
             else if is_name_start d then
               (if CHR '':'' \<in> set (takeWhile is_name_char cs) then None else
                case dropWhile is_space (dropWhile is_name_char cs) of
                  [] \<Rightarrow> Some (Inl ParseError)
                | e # es \<Rightarrow>
                    if e = CHR ''>''
                    then cons_token (TStart (takeWhile is_name_char cs)) (tokenize es)
                    else if e = CHR ''/'' then
                      (case es of
                         [] \<Rightarrow> Some (Inl ParseError)
                       | g # gs \<Rightarrow>
                           if g = CHR ''>''
                           then cons_token (TEmpty (takeWhile is_name_char cs)) (tokenize gs)
                           else Some (Inl ParseError))
                    else if is_name_start e
                            \<and> dropWhile is_name_char cs \<noteq> e # es then None
                    else Some (Inl ParseError))
             else Some (Inl ParseError))
      else if c = CHR ''&'' then
        (case cs of
           [] \<Rightarrow> Some (Inl ParseError)
         | d # ds \<Rightarrow>
             if d = CHR ''#'' then None
             else if is_name_start d then
               (case dropWhile is_name_char cs of
                  [] \<Rightarrow> Some (Inl ParseError)
                | e # es \<Rightarrow>
                    if e = CHR '';'' then
                      (case entity (takeWhile is_name_char cs) of
                         None \<Rightarrow> Some (Inl ParseError)
                       | Some ch \<Rightarrow> cons_token (TChar ch) (tokenize es))
                    else Some (Inl ParseError))
             else Some (Inl ParseError))
      else if starts_with '']]>'' (c # cs) then Some (Inl ParseError)
      else if \<not> is_xml_char c then Some (Inl ParseError)
      else if c = CHR 0x0D then
        (if cs \<noteq> [] \<and> hd cs = CHR 0x0A then tokenize cs
         else cons_token (TChar (CHR 0x0A)) (tokenize cs))
      else cons_token (TChar c) (tokenize cs))"
  by pat_completeness auto
termination
proof (relation "measure length")
  have dw: "\<And>P (xs :: string) y ys. dropWhile P xs = y # ys \<Longrightarrow> length ys < length xs"
    by (metis length_dropWhile_le length_Cons less_Suc_eq_le not_less)
  have dw2: "\<And>P Q (xs :: string) y ys.
               dropWhile P (dropWhile Q xs) = y # ys \<Longrightarrow> length ys < length xs"
    by (meson dw length_dropWhile_le less_le_trans)
  show "wf (measure (length :: string \<Rightarrow> nat))" by simp
  show "\<And>c cs d ds e es. cs = d # ds \<Longrightarrow>
          dropWhile is_space (dropWhile is_name_char ds) = e # es \<Longrightarrow>
          (es, c # cs) \<in> measure length"
    using dw2 by fastforce
  show "\<And>c cs e es. dropWhile is_space (dropWhile is_name_char cs) = e # es \<Longrightarrow>
          (es, c # cs) \<in> measure length"
    using dw2 by fastforce
  show "\<And>c cs e es g gs. dropWhile is_space (dropWhile is_name_char cs) = e # es \<Longrightarrow>
          es = g # gs \<Longrightarrow> (gs, c # cs) \<in> measure length"
    using dw2 by fastforce
  show "\<And>c cs e es. dropWhile is_name_char cs = e # es \<Longrightarrow> (es, c # cs) \<in> measure length"
    using dw by fastforce
qed simp_all

declare tokenize.simps(2) [simp del]

text \<open>
  The tree of a document: character data and elements. The tokens are put together
  with a stack of the elements that are open, each with the nodes that came before it;
  the nodes of the current element are kept last first.
\<close>

datatype xml_tree = XText string | XElem string "xml_tree list"

fun add_char :: "char \<Rightarrow> xml_tree list \<Rightarrow> xml_tree list" where
  "add_char ch (XText t # cur) = XText (t @ [ch]) # cur"
| "add_char ch cur = XText [ch] # cur"

fun build :: "token list \<Rightarrow> (string \<times> xml_tree list) list \<Rightarrow> xml_tree list
                \<Rightarrow> py_error + xml_tree list" where
  "build [] [] cur = Inr (rev cur)"
| "build [] (opened # stack) cur = Inl ParseError"
| "build (TChar ch # ts) stack cur = build ts stack (add_char ch cur)"
| "build (TStart name # ts) stack cur = build ts ((name, cur) # stack) []"
| "build (TEmpty name # ts) stack cur = build ts stack (XElem name [] # cur)"
| "build (TEnd name # ts) [] cur = Inl ParseError"
| "build (TEnd name # ts) ((opened, before) # stack) cur =
     (if name = opened then build ts stack (XElem name (rev cur) # before)
      else Inl ParseError)"

fun blank :: "xml_tree \<Rightarrow> bool" where
  "blank (XText t) = list_all is_space t"
| "blank (XElem name children) = False"

text \<open>
  A document has one element at the top, with nothing but white space around it. The
  result of \<^verbatim>\<open>ET.parse\<close> is that element.
\<close>

definition et_parse :: "string \<Rightarrow> (py_error + xml_tree) option" where
  "et_parse s =
     (case tokenize (if starts_with xml_declaration s
                     then drop (length xml_declaration) s else s) of
        None \<Rightarrow> None
      | Some (Inl e) \<Rightarrow> Some (Inl e)
      | Some (Inr ts) \<Rightarrow>
          (case build ts [] [] of
             Inl e \<Rightarrow> Some (Inl e)
           | Inr roots \<Rightarrow>
               (case filter (\<lambda>n. \<not> blank n) roots of
                  [XElem name children] \<Rightarrow> Some (Inr (XElem name children))
                | _ \<Rightarrow> Some (Inl ParseError))))"

text \<open>
  \<^verbatim>\<open>tree.findall(".//Countries")\<close>: the elements with the tag below the root, at any
  depth; the root itself is not among them.
\<close>

fun findall :: "string \<Rightarrow> xml_tree \<Rightarrow> xml_tree list" where
  "findall tag (XText t) = []"
| "findall tag (XElem name children) =
     concat (map (\<lambda>c. (case c of
                          XElem n cc \<Rightarrow> (if n = tag then [c] else [])
                        | XText t \<Rightarrow> [])
                       @ findall tag c) children)"

section \<open>The self-check of \<^verbatim>\<open>automated_generator.py\<close>\<close>

text \<open>
  The result of \<^verbatim>\<open>generate_xml_with_validation\<close>, lines 77 to 130. An entry of
  \<^verbatim>\<open>errors\<close> is one of the two fixed messages or the text of an exception, kept here
  as the exception; \<^verbatim>\<open>warnings\<close> holds at most the number of countries that are
  missing. The file size is left out.
\<close>

datatype run_error = ConnectivityFailed | NotCreated | Raised py_error

record validation =
  success :: bool
  countries_requested :: nat
  countries_processed :: nat
  errors :: "run_error list"
  warnings :: "nat list"

text \<open>
  \<open>reachable\<close> is the outcome of \<^verbatim>\<open>test_api_connectivity\<close>, a request of its own.
  Every exception raised after it is caught by \<^verbatim>\<open>except Exception\<close> and recorded. A
  document outside the model of \<open>et_parse\<close> gives no result.
\<close>

definition generate_xml_with_validation ::
    "bool \<Rightarrow> api \<Rightarrow> string list \<Rightarrow> string \<Rightarrow> filesystem
       \<Rightarrow> (validation \<times> filesystem) option" where
  "generate_xml_with_validation reachable api countries output_file fs =
     (let result = \<lparr>success = False, countries_requested = length countries,
                     countries_processed = 0, errors = [], warnings = []\<rparr>
      in if \<not> reachable then Some (result\<lparr>errors := [ConnectivityFailed]\<rparr>, fs)
         else
           (case generate_countries_xml api countries output_file fs of
              (Inl e, fs') \<Rightarrow> Some (result\<lparr>errors := [Raised e]\<rparr>, fs')
            | (Inr None, fs') \<Rightarrow> Some (result\<lparr>errors := [NotCreated]\<rparr>, fs')
            | (Inr (Some output_path), fs') \<Rightarrow>
                (if output_path \<noteq> [] \<and> os_path_exists fs' output_path then
                   (case read_file fs' output_path of
                      Inl e \<Rightarrow> Some (result\<lparr>errors := [Raised e]\<rparr>, fs')
                    | Inr content \<Rightarrow>
                        (case et_parse content of
                           None \<Rightarrow> None
                         | Some (Inl e) \<Rightarrow> Some (result\<lparr>errors := [Raised e]\<rparr>, fs')
                         | Some (Inr tree) \<Rightarrow>
                             (let n = length (findall ''Countries'' tree)
                              in Some (result\<lparr>success := True, countries_processed := n,
                                         warnings := (if n < length countries
                                                      then [length countries - n] else [])\<rparr>,
                                       fs'))))
                 else Some (result\<lparr>errors := [NotCreated]\<rparr>, fs'))))"

section \<open>Sample file system and records with markup characters\<close>

text \<open>
  A file system with the working directory \<^verbatim>\<open>/home/user\<close> and nothing in it, and the
  condition under which a file \<open>f\<close> can be written in the directory \<open>d\<close> of the
  working directory: both are plain names (not empty, not \<^verbatim>\<open>.\<close> or \<^verbatim>\<open>..\<close>, without
  slash or NUL, of at most 255 bytes), the working directory exists, \<open>d\<close> is missing
  or a directory, and \<open>f\<close> is not a directory of \<open>d\<close>.
\<close>

definition sample_fs :: filesystem where
  "sample_fs =
     \<lparr>cwd = [''home'', ''user''],
      nodes = [[] \<mapsto> Dir, [''home''] \<mapsto> Dir, [''home'', ''user''] \<mapsto> Dir]\<rparr>"

definition plain_name :: "string \<Rightarrow> bool" where
  "plain_name s =
     (s \<noteq> [] \<and> CHR ''/'' \<notin> set s \<and> CHR 0x00 \<notin> set s \<and> s \<noteq> ''.'' \<and> s \<noteq> ''..''
      \<and> byte_length s \<le> 255)"

definition writable_in :: "filesystem \<Rightarrow> string \<Rightarrow> string \<Rightarrow> bool" where
  "writable_in fs d f =
     (plain_name d \<and> plain_name f \<and> nodes fs (cwd fs) = Some Dir
      \<and> (case nodes fs (cwd fs @ [d]) of Some (File content) \<Rightarrow> False | _ \<Rightarrow> True)
      \<and> nodes fs (cwd fs @ [d, f]) \<noteq> Some Dir)"


text \<open>A record whose common name has an ampersand, and a network that serves it.\<close>

definition ampersand_record :: json where
  "ampersand_record =
     JObj [(''cca2'', JStr ''TT''),
           (''name'', JObj [(''common'', JStr ''Trinidad & Tobago'')])]"

definition ampersand_api :: api where
  "ampersand_api n =
     (if n = ''trinidad'' then Inr (JArr [ampersand_record]) else Inl RequestException)"

section \<open>Extraction of a whole sequence\<close>

text \<open>
  The extracted data of a sequence of records, in order; the first exception, if an
  extraction raises. Both Formatters extract record by record inside their loop.
\<close>

fun extract_all :: "(json \<Rightarrow> py_error + xml_data) \<Rightarrow> json list \<Rightarrow> py_error + xml_data list" where
  "extract_all ex [] = Inr []"
| "extract_all ex (r # rs) =
     (case ex r of
        Inl e \<Rightarrow> Inl e
      | Inr d \<Rightarrow> (case extract_all ex rs of Inl e \<Rightarrow> Inl e | Inr ds \<Rightarrow> Inr (d # ds)))"






text \<open>
  Records with markup in a field: a common name that closes its block and opens another
  one, with the network that serves it; a currency symbol \<^verbatim>\<open><\<close> in a record that has
  nothing else; a currency whose name has an ampersand; and a currency whose key holds
  a tag.
\<close>

definition inject_record :: json where
  "inject_record =
     JObj [(''name'', JObj [(''common'',
        JStr ''x</CommonName></Countries><Countries><CommonName>y'')])]"

definition inject_api :: api where
  "inject_api n =
     (if n = ''utopia'' then Inr (JArr [inject_record]) else Inl RequestException)"

definition symbol_record :: json where
  "symbol_record = JObj [(''currencies'', JObj [(''XTS'', JObj [(''symbol'', JStr ''<'')])])]"

definition ampersand_currency_record :: json where
  "ampersand_currency_record =
     JObj [(''currencies'',
        JObj [(''TTD'', JObj [(''name'', JStr ''Trinidad & Tobago dollar''),
                              (''symbol'', JStr ''$'')])])]"

definition tag_key_record :: json where
  "tag_key_record = JObj [(''currencies'', JObj [(''A<B/>'', JObj [])])]"

section \<open>Documents as sequences of tags and text\<close>

text \<open>
  To follow \<open>et_parse\<close> on the documents of the generators, whatever the records, a
  document is seen as a sequence of pieces: start tags, end tags, empty-element tags,
  character data written as it is, and character data written through
  \<open>escape_cdata\<close>. \<open>render\<close> gives the text of the pieces and \<open>toks\<close> the tokens
  they should be read as.
\<close>

datatype piece = Open string | Close string | Empty string | Chars string | Escaped string

fun render_piece :: "piece \<Rightarrow> string" where
  "render_piece (Open tag) = ''<'' @ tag @ ''>''"
| "render_piece (Close tag) = ''</'' @ tag @ ''>''"
| "render_piece (Empty tag) = ''<'' @ tag @ '' />''"
| "render_piece (Chars s) = s"
| "render_piece (Escaped s) = escape_cdata s"

definition render :: "piece list \<Rightarrow> string" where
  "render ps = concat (map render_piece ps)"

fun toks_piece :: "piece \<Rightarrow> token list" where
  "toks_piece (Open tag) = [TStart tag]"
| "toks_piece (Close tag) = [TEnd tag]"
| "toks_piece (Empty tag) = [TEmpty tag]"
| "toks_piece (Chars s) = map TChar s"
| "toks_piece (Escaped s) = map TChar s"

definition toks :: "piece list \<Rightarrow> token list" where
  "toks ps = concat (map toks_piece ps)"

text \<open>
  A character that every XML document may hold and that a parser gives back as it is:
  not a control character other than tab and line feed. A character that may stand in
  character data as it is: in addition, none of \<^verbatim>\<open>&\<close>, \<^verbatim>\<open><\<close> and \<^verbatim>\<open>>\<close>.
\<close>

definition plain_char :: "char \<Rightarrow> bool" where
  "plain_char c = (is_xml_char c \<and> c \<noteq> CHR 0x0D)"

definition safe_char :: "char \<Rightarrow> bool" where
  "safe_char c = (plain_char c \<and> c \<noteq> CHR ''&'' \<and> c \<noteq> CHR ''<'' \<and> c \<noteq> CHR ''>'')"

definition plain_text :: "string \<Rightarrow> bool" where
  "plain_text s = list_all plain_char s"

definition safe_text :: "string \<Rightarrow> bool" where
  "safe_text s = list_all safe_char s"

definition simple_tag :: "string \<Rightarrow> bool" where
  "simple_tag tag =
     (tag \<noteq> [] \<and> is_name_start (hd tag) \<and> list_all is_name_char tag \<and> CHR '':'' \<notin> set tag)"

fun piece_ok :: "piece \<Rightarrow> bool" where
  "piece_ok (Open tag) = simple_tag tag"
| "piece_ok (Close tag) = simple_tag tag"
| "piece_ok (Empty tag) = simple_tag tag"
| "piece_ok (Chars s) = safe_text s"
| "piece_ok (Escaped s) = plain_text s"

definition cons_tokens ::
    "token list \<Rightarrow> (py_error + token list) option \<Rightarrow> (py_error + token list) option" where
  "cons_tokens ts r = foldr cons_token ts r"

text \<open>
  What is left to read does not go on with \<^verbatim>\<open>>\<close> or \<^verbatim>\<open>]>\<close>, so that no \<^verbatim>\<open>]]>\<close> ends
  there.
\<close>

definition no_cdata_end :: "string \<Rightarrow> bool" where
  "no_cdata_end s = (\<not> starts_with ''>'' s \<and> \<not> starts_with '']>'' s)"

text \<open>Character data added to the nodes of the current element, last first.\<close>

definition push_text :: "string \<Rightarrow> xml_tree list \<Rightarrow> xml_tree list" where
  "push_text s cur = foldl (\<lambda>nodes c. add_char c nodes) cur s"

definition text_nodes :: "string \<Rightarrow> xml_tree list" where
  "text_nodes s = (if s = [] then [] else [XText s])"

section \<open>The elements of a document\<close>

text \<open>
  White space between elements carries nothing. \<open>tidy\<close> leaves out the blank character
  data of every element that has an element below it; the text of an element that has
  none is kept as it is. \<open>blocks_of\<close> gives what the root holds, tidied.
\<close>

fun is_elem :: "xml_tree \<Rightarrow> bool" where
  "is_elem (XElem name children) = True"
| "is_elem (XText t) = False"

fun tidy :: "xml_tree \<Rightarrow> xml_tree" where
  "tidy (XText t) = XText t"
| "tidy (XElem name children) =
     (if list_ex is_elem children
      then XElem name (map tidy (filter (\<lambda>n. \<not> blank n) children))
      else XElem name children)"

fun root_tag :: "xml_tree \<Rightarrow> string" where
  "root_tag (XElem name children) = name"
| "root_tag (XText t) = []"

fun blocks_of :: "xml_tree \<Rightarrow> xml_tree list" where
  "blocks_of (XElem name children) = map tidy (filter (\<lambda>n. \<not> blank n) children)"
| "blocks_of (XText t) = []"

text \<open>
  The element that stands for a field: its tag with the text of the field, and nothing
  in it when the text is empty. Then the country block a document should hold for the
  extracted data \<open>d\<close>: the five fields and the three fields of the currency.
\<close>

definition leaf :: "string \<Rightarrow> string \<Rightarrow> xml_tree" where
  "leaf tag s = XElem tag (text_nodes s)"


text \<open>The texts that the Formatters write for the extracted data \<open>d\<close>.\<close>

definition field_texts :: "xml_data \<Rightarrow> string list" where
  "field_texts d =
     [py_str (code d), py_str (original_name d), py_str (common_name d),
      py_str (local_name d), py_str (currency_code (currency d)),
      py_str (currency_name (currency d)), py_str (currency_symbol (currency d))]"

definition safe_data :: "xml_data \<Rightarrow> bool" where
  "safe_data d = list_all safe_text (field_texts d)"


text \<open>
  The pieces of one country block of the improved generator, line by line, and the
  nodes they are read as, white space included.
\<close>

definition block_pieces :: "xml_data \<Rightarrow> piece list" where
  "block_pieces d =
     [Chars ''  '', Open ''Countries'', Chars [CHR 0x0A],
      Chars ''    '', Open ''Code'', Chars (py_str (code d)), Close ''Code'',
      Chars [CHR 0x0A],
      Chars ''    '', Open ''OriginalName'', Chars (py_str (original_name d)),
      Close ''OriginalName'', Chars [CHR 0x0A],
      Chars ''    '', Open ''CommonName'', Chars (py_str (common_name d)),
      Close ''CommonName'', Chars [CHR 0x0A],
      Chars ''    '', Open ''LocalName'', Chars (py_str (local_name d)),
      Close ''LocalName'', Chars [CHR 0x0A],
      Chars ''    '', Open ''OfficialCurrency'', Chars [CHR 0x0A],
      Chars ''      '', Open ''Code'', Chars (py_str (currency_code (currency d))),
      Close ''Code'', Chars [CHR 0x0A],
      Chars ''      '', Open ''Name'', Chars (py_str (currency_name (currency d))),
      Close ''Name'', Chars [CHR 0x0A],
      Chars ''      '', Open ''Symbol'', Chars (py_str (currency_symbol (currency d))),
      Close ''Symbol'', Chars [CHR 0x0A],
      Chars ''    '', Close ''OfficialCurrency'', Chars [CHR 0x0A],
      Chars ''  '', Close ''Countries'', Chars [CHR 0x0A],
      Chars [CHR 0x0A]]"

text \<open>The pieces of the whole document of the improved generator, after the declaration.\<close>

definition improved_pieces :: "xml_data list \<Rightarrow> piece list" where
  "improved_pieces ds =
     [Chars [CHR 0x0A], Open ''CountriesCollection'', Chars [CHR 0x0A]]
       @ concat (map block_pieces ds) @ [Close ''CountriesCollection'']"

definition country_raw :: "xml_data \<Rightarrow> xml_tree" where
  "country_raw d =
     XElem ''Countries''
       [XText (CHR 0x0A # ''    ''),
        leaf ''Code'' (py_str (code d)),
        XText (CHR 0x0A # ''    ''),
        leaf ''OriginalName'' (py_str (original_name d)),
        XText (CHR 0x0A # ''    ''),
        leaf ''CommonName'' (py_str (common_name d)),
        XText (CHR 0x0A # ''    ''),
        leaf ''LocalName'' (py_str (local_name d)),
        XText (CHR 0x0A # ''    ''),
        XElem ''OfficialCurrency''
          [XText (CHR 0x0A # ''      ''),
           leaf ''Code'' (py_str (currency_code (currency d))),
           XText (CHR 0x0A # ''      ''),
           leaf ''Name'' (py_str (currency_name (currency d))),
           XText (CHR 0x0A # ''      ''),
           leaf ''Symbol'' (py_str (currency_symbol (currency d))),
           XText (CHR 0x0A # ''    '')],
        XText (CHR 0x0A # ''  '')]"


fun elem_tree :: "element \<Rightarrow> xml_tree" where
  "elem_tree (Element tag txt children) =
     XElem tag ((case txt of None \<Rightarrow> [] | Some t \<Rightarrow> text_nodes t) @ map elem_tree children)"


text \<open>
  The number of elements with a tag among some nodes and below them, as
  \<^verbatim>\<open>findall\<close> counts them below a root that holds the nodes.
\<close>

definition hits :: "string \<Rightarrow> xml_tree list \<Rightarrow> nat" where
  "hits tag ns =
     length (concat (map (\<lambda>c. (case c of XElem n cc \<Rightarrow> (if n = tag then [c] else [])
                                         | XText t \<Rightarrow> []) @ findall tag c) ns))"

section \<open>Properties of the Extractor\<close>

lemma dict_get_dict: "is_dict v \<Longrightarrow> \<exists>w. dict_get v k d = Inr w"
  by (cases v) simp_all

lemma dict_of_dicts_is_dict: "dict_of_dicts v \<Longrightarrow> is_dict v"
  by (cases v) simp_all

lemma map_of_is_dict:
  "list_all (\<lambda>kv. is_dict (snd kv)) kvs \<Longrightarrow> map_of kvs k = Some v \<Longrightarrow> is_dict v"
  by (induction kvs) (auto split: if_splits)

lemma py_in_dicts: "dict_of_dicts nn \<Longrightarrow> \<exists>b. py_in k nn = Inr b"
  by (cases nn) simp_all

lemma py_getitem_dicts:
  "dict_of_dicts nn \<Longrightarrow> py_in k nn = Inr True \<Longrightarrow> \<exists>e. py_getitem nn k = Inr e \<and> is_dict e"
proof (cases nn)
  case (JObj kvs)
  assume d: "dict_of_dicts nn" and i: "py_in k nn = Inr True"
  from i JObj have "k \<in> fst ` set kvs" by simp
  then obtain v where v: "map_of kvs k = Some v"
    by (metis domD dom_map_of_conv_image_fst)
  with d JObj have "is_dict v" by (auto dest: map_of_is_dict)
  with v JObj show ?thesis by simp
qed simp_all

text \<open>On a mapping of mappings the priority loop raises nothing.\<close>

lemma priority_loop_ok:
  "dict_of_dicts nn \<Longrightarrow> \<exists>v. priority_loop langs nn = Inr v"
proof (induction langs)
  case Nil
  then show ?case by simp
next
  case (Cons lang langs)
  from Cons.prems obtain b where b: "py_in lang nn = Inr b" using py_in_dicts by blast
  show ?case
  proof (cases b)
    case True
    with b have "py_in lang nn = Inr True" by simp
    with Cons.prems obtain e where "py_getitem nn lang = Inr e" "is_dict e"
      using py_getitem_dicts by blast
    with b True show ?thesis using dict_get_dict [of e] by auto
  next
    case False
    with b Cons show ?thesis by simp
  qed
qed

lemma priority_loop_empty: "priority_loop langs (JObj []) = Inr (JStr [])"
  by (induction langs) simp_all

lemma first_available_ok:
  "dict_of_dicts nn \<Longrightarrow> truthy nn \<Longrightarrow> \<exists>v. first_available nn = Inr v"
proof (cases nn)
  case (JObj kvs)
  assume d: "dict_of_dicts nn" and t: "truthy nn"
  from t JObj obtain k e rest where kvs: "kvs = (k, e) # rest" by (cases kvs) auto
  with d JObj have "is_dict e" by simp
  then obtain w where "dict_get e ''official'' (JStr []) = Inr w" using dict_get_dict by blast
  with JObj kvs show ?thesis by (simp add: first_available_def)
qed simp_all

lemma extract_currency_fields:
  "extract_currency (JObj ((k, JObj cur) # rest)) =
     Inr \<lparr>currency_code = JStr k,
          currency_name = or_empty (map_of cur ''name''),
          currency_symbol = or_empty (map_of cur ''symbol'')\<rparr>"
  by (simp add: extract_currency_def or_empty_def)

lemma extract_currency_none: "extract_currency (JObj []) = Inr empty_currency"
  by (simp add: extract_currency_def empty_currency_def)

lemma extract_currency_ok:
  "dict_of_dicts c \<Longrightarrow> \<exists>ci. extract_currency c = Inr ci"
proof (cases c)
  case (JObj kvs)
  assume d: "dict_of_dicts c"
  show ?thesis
  proof (cases kvs)
    case Nil
    with JObj show ?thesis by (simp add: extract_currency_none)
  next
    case (Cons kv rest)
    with d JObj have "is_dict (snd kv)" by simp
    then obtain cur where "snd kv = JObj cur" by (cases "snd kv") auto
    with JObj Cons show ?thesis by (cases kv) (simp add: extract_currency_fields)
  qed
qed simp_all

text \<open>
  What \<^verbatim>\<open>extract_xml_data\<close> returns on a well-shaped record: it raises nothing, the
  three plain fields are the values under their keys or the empty string, the currency
  is what \<open>extract_currency\<close> gives, and the local name is empty when there are no
  native names.
\<close>

lemma extract_well_shaped:
  assumes ws: "well_shaped r"
  obtains lname ci where
    "extract_xml_data r =
       Inr \<lparr>code = or_empty (field r ''cca2''),
            original_name = or_empty (nested r ''name'' ''official''),
            common_name = or_empty (nested r ''name'' ''common''),
            local_name = lname, currency = ci\<rparr>"
    and "extract_currency (case field r ''currencies'' of None \<Rightarrow> JObj [] | Some v \<Rightarrow> v)
           = Inr ci"
    and "nested r ''name'' ''nativeName'' = None \<longrightarrow> lname = JStr []"
proof -
  from ws obtain kvs where r: "r = JObj kvs"
    by (cases r) (simp_all add: well_shaped_def)
  define name_data where "name_data = (case map_of kvs ''name'' of None \<Rightarrow> JObj [] | Some v \<Rightarrow> v)"
  define currencies where
    "currencies = (case map_of kvs ''currencies'' of None \<Rightarrow> JObj [] | Some v \<Rightarrow> v)"
  from ws r have nd: "is_dict name_data"
    by (auto simp: well_shaped_def name_data_def split: option.splits)
  then obtain nkvs where nk: "name_data = JObj nkvs" by (cases name_data) simp_all
  define native_names where
    "native_names = (case map_of nkvs ''nativeName'' of None \<Rightarrow> JObj [] | Some v \<Rightarrow> v)"
  from ws r nk have nn: "dict_of_dicts native_names"
    by (auto simp: well_shaped_def name_data_def native_names_def split: option.splits)
  from ws r have cu: "dict_of_dicts currencies"
    by (auto simp: well_shaped_def currencies_def split: option.splits)
  from nn obtain found where f: "priority_loop language_priority native_names = Inr found"
    using priority_loop_ok by blast
  have "\<exists>lname. (if \<not> truthy found \<and> truthy native_names
                  then first_available native_names else Inr found) = Inr lname"
    using first_available_ok [OF nn] by simp
  then obtain lname where l: "(if \<not> truthy found \<and> truthy native_names
                  then first_available native_names else Inr found) = Inr lname" ..
  from cu obtain ci where c: "extract_currency currencies = Inr ci"
    using extract_currency_ok by blast
  have off: "or_empty (nested r ''name'' ''official'') = or_empty (map_of nkvs ''official'')"
    using nk by (auto simp: r nested_def name_data_def or_empty_def split: option.splits)
  have com: "or_empty (nested r ''name'' ''common'') = or_empty (map_of nkvs ''common'')"
    using nk by (auto simp: r nested_def name_data_def or_empty_def split: option.splits)
  have ex: "extract_xml_data r =
             Inr \<lparr>code = or_empty (field r ''cca2''),
                  original_name = or_empty (nested r ''name'' ''official''),
                  common_name = or_empty (nested r ''name'' ''common''),
                  local_name = lname, currency = ci\<rparr>"
    unfolding off com using r nk f l c
    by (simp add: extract_xml_data_def build_xml_data_def or_empty_def
        name_data_def [symmetric] currencies_def [symmetric] native_names_def [symmetric])
  have cur: "extract_currency (case field r ''currencies'' of None \<Rightarrow> JObj [] | Some v \<Rightarrow> v)
               = Inr ci"
    using c by (simp add: r currencies_def)
  have nat: "nested r ''name'' ''nativeName'' = None \<longrightarrow> lname = JStr []"
  proof
    assume "nested r ''name'' ''nativeName'' = None"
    with nk have "native_names = JObj []"
      by (auto simp: r nested_def name_data_def native_names_def split: option.splits)
    with f l show "lname = JStr []" by (simp add: priority_loop_empty)
  qed
  show ?thesis by (rule that [OF ex cur nat])
qed

text \<open>
  On every record of the documented shape, with any of the fields \<^verbatim>\<open>cca2\<close>, \<^verbatim>\<open>name\<close>,
  \<^verbatim>\<open>name.official\<close>, \<^verbatim>\<open>name.common\<close>, \<^verbatim>\<open>name.nativeName\<close>, \<^verbatim>\<open>currencies\<close> and the
  currency's \<^verbatim>\<open>name\<close> and \<^verbatim>\<open>symbol\<close> absent, extraction raises no error; each absent
  field gives the empty string; and a record with no currency gives the all-empty
  currency.
\<close>

lemma extract_missing_fields:
  assumes ws: "well_shaped r"
  shows "\<exists>d. extract_xml_data r = Inr d
           \<and> (field r ''cca2'' = None \<longrightarrow> code d = JStr [])
           \<and> (nested r ''name'' ''official'' = None \<longrightarrow> original_name d = JStr [])
           \<and> (nested r ''name'' ''common'' = None \<longrightarrow> common_name d = JStr [])
           \<and> (nested r ''name'' ''nativeName'' = None \<longrightarrow> local_name d = JStr [])
           \<and> (field r ''currencies'' = None \<or> field r ''currencies'' = Some (JObj [])
                \<longrightarrow> currency d = empty_currency)
           \<and> (\<forall>k c rest. field r ''currencies'' = Some (JObj ((k, c) # rest)) \<longrightarrow>
                  (field c ''name'' = None \<longrightarrow> currency_name (currency d) = JStr [])
                  \<and> (field c ''symbol'' = None \<longrightarrow> currency_symbol (currency d) = JStr []))"
proof -
  from ws obtain lname ci where
    ex: "extract_xml_data r =
             Inr \<lparr>code = or_empty (field r ''cca2''),
                  original_name = or_empty (nested r ''name'' ''official''),
                  common_name = or_empty (nested r ''name'' ''common''),
                  local_name = lname, currency = ci\<rparr>"
    and cur: "extract_currency (case field r ''currencies'' of None \<Rightarrow> JObj [] | Some v \<Rightarrow> v)
               = Inr ci"
    and nat: "nested r ''name'' ''nativeName'' = None \<longrightarrow> lname = JStr []"
    by (rule extract_well_shaped)
  define d where "d = \<lparr>code = or_empty (field r ''cca2''),
                  original_name = or_empty (nested r ''name'' ''official''),
                  common_name = or_empty (nested r ''name'' ''common''),
                  local_name = lname, currency = ci\<rparr>"
  have e: "extract_xml_data r = Inr d" using ex by (simp add: d_def)
  have c1: "field r ''cca2'' = None \<longrightarrow> code d = JStr []"
    by (simp add: d_def or_empty_def)
  have c2: "nested r ''name'' ''official'' = None \<longrightarrow> original_name d = JStr []"
    by (simp add: d_def or_empty_def)
  have c3: "nested r ''name'' ''common'' = None \<longrightarrow> common_name d = JStr []"
    by (simp add: d_def or_empty_def)
  have c4: "nested r ''name'' ''nativeName'' = None \<longrightarrow> local_name d = JStr []"
    using nat by (simp add: d_def)
  have c5: "field r ''currencies'' = None \<or> field r ''currencies'' = Some (JObj [])
              \<longrightarrow> currency d = empty_currency"
    using cur by (auto simp: d_def extract_currency_none)
  have c6: "\<forall>k c rest. field r ''currencies'' = Some (JObj ((k, c) # rest)) \<longrightarrow>
                  (field c ''name'' = None \<longrightarrow> currency_name (currency d) = JStr [])
                  \<and> (field c ''symbol'' = None \<longrightarrow> currency_symbol (currency d) = JStr [])"
  proof (intro allI impI)
    fix k c' rest
    assume a: "field r ''currencies'' = Some (JObj ((k, c') # rest))"
    with ws have "is_dict c'" by (simp add: well_shaped_def)
    then obtain cm where cm: "c' = JObj cm" by (cases c') simp_all
    from cur a cm have "ci = \<lparr>currency_code = JStr k,
          currency_name = or_empty (map_of cm ''name''),
          currency_symbol = or_empty (map_of cm ''symbol'')\<rparr>"
      by (simp add: extract_currency_fields)
    then show "(field c' ''name'' = None \<longrightarrow> currency_name (currency d) = JStr [])
                  \<and> (field c' ''symbol'' = None \<longrightarrow> currency_symbol (currency d) = JStr [])"
      by (simp add: d_def cm or_empty_def)
  qed
  show ?thesis
    by (rule exI [of _ d]) (intro conjI e c1 c2 c3 c4 c5 c6)
qed

lemma extract_missing_fields_example:
  "well_shaped bare_record
   \<and> extract_xml_data bare_record =
       Inr \<lparr>code = JStr [], original_name = JStr [], common_name = JStr [],
            local_name = JStr [], currency = empty_currency\<rparr>
   \<and> well_shaped unnamed_currency_record
   \<and> extract_xml_data unnamed_currency_record =
       Inr \<lparr>code = JStr [], original_name = JStr [], common_name = JStr [],
            local_name = JStr [],
            currency = \<lparr>currency_code = JStr ''XTS'', currency_name = JStr [],
                        currency_symbol = JStr []\<rparr>\<rparr>"
  using extract_missing_fields [of bare_record]
    extract_missing_fields [of unnamed_currency_record]
  by (simp add: bare_record_def unnamed_currency_record_def well_shaped_def nested_def
      extract_xml_data_def language_priority_def extract_currency_def build_xml_data_def
      empty_currency_def)

text \<open>
  C4. For a record whose native names contain the Hindi code, the local name is the
  official value of the Hindi entry, also when that value is the empty string. The
  improved generator does not do this when the value is empty: its fallback tests
  \<^verbatim>\<open>not local_name\<close>, which holds for a Hindi entry with an empty official value as well
  as for no priority language found, and it then takes the first entry of the
  mapping. On the record below, where English comes first and Hindi has an empty
  official name, it returns the English name; the simple generator returns the empty
  string.
\<close>

theorem hindi_empty_official_falls_back:
  "extract_xml_data india_empty_hindi =
     Inr \<lparr>code = JStr [], original_name = JStr [], common_name = JStr [],
          local_name = JStr ''Republic of India'', currency = empty_currency\<rparr>
   \<and> simple_extract_xml_data india_empty_hindi =
     Inr \<lparr>code = JStr [], original_name = JStr [], common_name = JStr [],
          local_name = JStr [], currency = empty_currency\<rparr>"
  by (simp add: india_empty_hindi_def extract_xml_data_def simple_extract_xml_data_def
      simple_local_name_def language_priority_def first_available_def extract_currency_def
      build_xml_data_def empty_currency_def)

text \<open>
  Where the property does hold: the \<^verbatim>\<open>if/elif\<close> chain of the simple generator gives the
  Hindi official value whatever it is, and the priority loop of the improved generator
  finds it too; only the fallback after the loop replaces an empty one.
\<close>

lemma map_of_Some_key: "map_of kvs k = Some v \<Longrightarrow> k \<in> fst ` set kvs"
  by (metis map_of_eq_None_iff option.distinct(1))

lemma simple_local_name_hindi:
  assumes "map_of kvs ''hin'' = Some (JObj e)"
  shows "simple_local_name (JObj kvs) = Inr (or_empty (map_of e ''official''))"
proof -
  from assms have "''hin'' \<in> fst ` set kvs" by (rule map_of_Some_key)
  with assms show ?thesis by (simp add: simple_local_name_def or_empty_def)
qed

lemma priority_loop_hindi:
  assumes "map_of kvs ''hin'' = Some (JObj e)"
  shows "priority_loop language_priority (JObj kvs) = Inr (or_empty (map_of e ''official''))"
proof -
  from assms have "''hin'' \<in> fst ` set kvs" by (rule map_of_Some_key)
  with assms show ?thesis by (simp add: language_priority_def or_empty_def)
qed

text \<open>
  For a record of the documented shape whose currency mapping has exactly one entry,
  the lines that the improved generator writes for the currency hold the entry's key
  and its \<^verbatim>\<open>name\<close> and \<^verbatim>\<open>symbol\<close> values as they are, the empty string for one that is
  absent.
\<close>

lemma single_currency_lines:
  assumes ws: "well_shaped r"
    and one: "field r ''currencies'' = Some (JObj [(k, c)])"
  shows "\<exists>d. extract_xml_data r = Inr d
           \<and> take 5 (drop 5 (country_block d)) =
               [''    <OfficialCurrency>'',
                ''      <Code>'' @ k @ ''</Code>'',
                ''      <Name>'' @ text_of (field c ''name'') @ ''</Name>'',
                ''      <Symbol>'' @ text_of (field c ''symbol'') @ ''</Symbol>'',
                ''    </OfficialCurrency>'']"
proof -
  from ws obtain lname ci where
    ex: "extract_xml_data r =
             Inr \<lparr>code = or_empty (field r ''cca2''),
                  original_name = or_empty (nested r ''name'' ''official''),
                  common_name = or_empty (nested r ''name'' ''common''),
                  local_name = lname, currency = ci\<rparr>"
    and cur: "extract_currency (case field r ''currencies'' of None \<Rightarrow> JObj [] | Some v \<Rightarrow> v)
               = Inr ci"
    and nat: "nested r ''name'' ''nativeName'' = None \<longrightarrow> lname = JStr []"
    by (rule extract_well_shaped)
  from ws one have "is_dict c" by (simp add: well_shaped_def)
  then obtain cm where cm: "c = JObj cm" by (cases c) simp_all
  from cur one cm have ci: "ci = \<lparr>currency_code = JStr k,
          currency_name = or_empty (map_of cm ''name''),
          currency_symbol = or_empty (map_of cm ''symbol'')\<rparr>"
    by (simp add: extract_currency_fields)
  show ?thesis
    unfolding ex by (simp add: country_block_def ci cm text_of_def)
qed

lemma single_currency_lines_example:
  "well_shaped japan_record
   \<and> (\<exists>d. extract_xml_data japan_record = Inr d
        \<and> take 5 (drop 5 (country_block d)) =
               [''    <OfficialCurrency>'',
                ''      <Code>JPY</Code>'',
                ''      <Name>Japanese yen</Name>'',
                ''      <Symbol></Symbol>'',
                ''    </OfficialCurrency>''])"
  using single_currency_lines [of japan_record "''JPY''" "JObj [(''name'', JStr ''Japanese yen'')]"]
  by (simp add: japan_record_def well_shaped_def text_of_def or_empty_def)

section \<open>Properties of the Fetcher\<close>

text \<open>
  While the lookups fail with a request exception or return lists, the loop only
  appends: after a prefix of such names the accumulator has grown by their first
  records, and the loop goes on with the rest.
\<close>

lemma fetch_loop_append:
  "lists_or_fails api names \<Longrightarrow>
   fetch_loop api (names @ rest) acc = fetch_loop api rest (acc @ first_records api names)"
proof (induction names arbitrary: acc)
  case Nil
  then show ?case by (simp add: first_records_def)
next
  case (Cons n names)
  from Cons.prems have tl: "lists_or_fails api names"
    by (simp add: lists_or_fails_def)
  have fr: "first_records api (n # names) =
    (case api n of Inr (JArr (x # xs)) \<Rightarrow> [x] | _ \<Rightarrow> []) @ first_records api names"
    by (simp add: first_records_def)
  show ?case
  proof (cases "api n")
    case (Inl e)
    with Cons.prems have "e = RequestException" by (simp add: lists_or_fails_def)
    with Inl Cons.IH [OF tl] show ?thesis by (simp add: fr)
  next
    case (Inr data)
    with Cons.prems obtain xs where xs: "data = JArr xs"
      by (cases data) (simp_all add: lists_or_fails_def)
    show ?thesis
    proof (cases xs)
      case Nil
      with Inr xs Cons.IH [OF tl] show ?thesis by (simp add: fr)
    next
      case (Cons x xs')
      with Inr xs Cons.IH [OF tl, of "acc @ [x]"] show ?thesis by (simp add: fr)
    qed
  qed
qed

lemma length_first_records: "length (first_records api names) \<le> length names"
  by (induction names) (auto simp: first_records_def split: sum.splits json.splits list.splits)

text \<open>
  For every list of names whose lookups fail with a request exception or return a
  list, the Fetcher returns the first element of each non-empty result, in the order
  of the names, the failed and the empty lookups left out: at most as many records as
  there are names.
\<close>

lemma fetch_first_records:
  assumes ok: "lists_or_fails api names"
  shows "fetch_country_data api names = Inr (first_records api names)
         \<and> length (first_records api names) \<le> length names"
proof -
  have "fetch_loop api (names @ []) [] = fetch_loop api [] ([] @ first_records api names)"
    using ok by (rule fetch_loop_append)
  then have f: "fetch_country_data api names = Inr (first_records api names)"
    by (simp add: fetch_country_data_def)
  have l: "length (first_records api names) \<le> length names"
    by (rule length_first_records)
  from f l show ?thesis by (intro conjI)
qed

lemma fetch_first_records_example:
  "lists_or_fails sample_api [''japan'', ''atlantis'', ''nowhere'', ''india'']
   \<and> fetch_country_data sample_api [''japan'', ''atlantis'', ''nowhere'', ''india'']
       = Inr [japan_record, india_empty_hindi]"
proof -
  have ok: "lists_or_fails sample_api [''japan'', ''atlantis'', ''nowhere'', ''india'']"
    by (simp add: lists_or_fails_def sample_api_def)
  have fr: "first_records sample_api [''japan'', ''atlantis'', ''nowhere'', ''india'']
              = [japan_record, india_empty_hindi]"
    by (simp add: first_records_def sample_api_def)
  from fetch_first_records [OF ok] fr ok show ?thesis by simp
qed

text \<open>
  C10. The \<^verbatim>\<open>except\<close> clause covers request exceptions only. When the lookups of the
  names before \<open>n\<close> fail with a request exception or return lists, and the lookup of
  \<open>n\<close> raises any other exception, as a body that is not JSON does where the decode
  error is not a request exception, the Fetcher raises that exception: it returns no
  list, so the records fetched for the earlier names are lost and the names after
  \<open>n\<close> are not looked up.
\<close>

theorem fetch_country_data_aborts:
  assumes ok: "lists_or_fails api before"
    and raised: "api n = Inl e"
    and other: "e \<noteq> RequestException"
  shows "fetch_country_data api (before @ n # after) = Inl e"
proof -
  have "fetch_loop api (before @ n # after) []
          = fetch_loop api (n # after) ([] @ first_records api before)"
    using ok by (rule fetch_loop_append)
  also have "\<dots> = Inl e"
    using raised other by simp
  finally show ?thesis by (simp add: fetch_country_data_def)
qed

theorem fetch_country_data_aborts_witness:
  "lists_or_fails garbled_api [''india'']
   \<and> first_records garbled_api [''india''] = [india_empty_hindi]
   \<and> garbled_api ''japan'' = Inl JSONDecodeError
   \<and> fetch_country_data garbled_api [''india'', ''japan'', ''germany''] = Inl JSONDecodeError"
  using fetch_country_data_aborts [of garbled_api "[''india'']" "''japan''" JSONDecodeError
      "[''germany'']"]
  by (simp add: lists_or_fails_def garbled_api_def first_records_def)

section \<open>Paths and directories\<close>

lemma path_head_no_sep: "CHR ''/'' \<notin> set p \<Longrightarrow> path_head p = []"
proof -
  assume a: "CHR ''/'' \<notin> set p"
  then have "dropWhile (\<lambda>c. c \<noteq> CHR ''/'') (rev p) = []" by auto
  then show ?thesis by (simp add: path_head_def)
qed

lemma path_tail_no_sep:
  assumes "CHR ''/'' \<notin> set p"
  shows "path_tail p = p"
proof -
  from assms have "\<forall>x\<in>set (rev p). x \<noteq> CHR ''/''" by auto
  then have "takeWhile (\<lambda>c. c \<noteq> CHR ''/'') (rev p) = rev p"
    by (rule takeWhile_eq_all_conv [THEN iffD2])
  then show ?thesis by (metis path_tail_def rev_rev_ident)
qed

lemma os_makedirs_empty: "os_makedirs [] fs = (Some FileNotFoundError, fs)"
  by (subst os_makedirs.simps)
     (simp add: makedirs_head_def makedirs_tail_def path_head_def path_tail_def
        mkdir_exist_ok_def os_mkdir_def all_sep_def resolve_def os_path_isdir_def stat_def
        check_path_def)

text \<open>
  C9, for a path with no directory part, such as \<^verbatim>\<open>my_countries.xml\<close> of the usage
  examples: \<^verbatim>\<open>os.path.dirname\<close> gives the empty string and \<^verbatim>\<open>os.makedirs\<close> raises
  \<^verbatim>\<open>FileNotFoundError\<close> on it, so both generators leave with that exception once the
  document is built, and the file system is as it was: no file is written.
\<close>

theorem bare_filename_not_written:
  assumes "CHR ''/'' \<notin> set output_file"
  shows "(\<forall>xml. final_xml countries_data = Inr xml \<longrightarrow>
            generate_formatted_xml countries_data output_file fs = (Inl FileNotFoundError, fs))
       \<and> (\<forall>xml. simple_final_xml countries_data = Inr xml \<longrightarrow>
            generate_xml countries_data output_file fs = (Inl FileNotFoundError, fs))"
  using assms
  by (simp add: generate_formatted_xml_def generate_xml_def os_path_dirname_def
      path_head_no_sep os_makedirs_empty)

lemma final_xml_japan: "\<exists>xml. final_xml [japan_record] = Inr xml"
  by (simp add: final_xml_def xml_lines_def japan_record_def extract_xml_data_def
      first_available_def extract_currency_def build_xml_data_def language_priority_def)

lemma simple_final_xml_japan: "\<exists>xml. simple_final_xml [japan_record] = Inr xml"
  by (simp add: simple_final_xml_def simple_xml_str_def japan_record_def simple_extract_xml_data_def
      simple_local_name_def first_available_def extract_currency_def build_xml_data_def)

theorem bare_filename_not_written_witness:
  "CHR ''/'' \<notin> set ''my_countries.xml''
   \<and> generate_formatted_xml [japan_record] ''my_countries.xml'' sample_fs
       = (Inl FileNotFoundError, sample_fs)
   \<and> generate_xml [japan_record] ''my_countries.xml'' sample_fs
       = (Inl FileNotFoundError, sample_fs)"
  using bare_filename_not_written [of "''my_countries.xml''" "[japan_record]" sample_fs]
    final_xml_japan simple_final_xml_japan
  by auto

section \<open>Writing into a directory of the working directory\<close>

lemma split_sep_no_sep: "CHR ''/'' \<notin> set s \<Longrightarrow> split_sep s = [s]"
  by (induction s) auto

lemma split_sep_append:
  "CHR ''/'' \<notin> set s \<Longrightarrow> split_sep (s @ CHR ''/'' # t) = s # split_sep t"
  by (induction s) auto

lemma rstrip_sep_plain: "s \<noteq> [] \<Longrightarrow> last s \<noteq> CHR ''/'' \<Longrightarrow> rstrip_sep s = s"
proof -
  assume a: "s \<noteq> []" "last s \<noteq> CHR ''/''"
  then have "rev s \<noteq> []" "hd (rev s) \<noteq> CHR ''/''" by (simp_all add: hd_rev)
  then have "dropWhile (\<lambda>c. c = CHR ''/'') (rev s) = rev s"
    by (cases "rev s") simp_all
  then show ?thesis by (metis rstrip_sep_def rev_rev_ident)
qed

lemma plain_last: "plain_name s \<Longrightarrow> last s \<noteq> CHR ''/''"
  by (metis last_in_set plain_name_def)

lemma plain_hd: "plain_name s \<Longrightarrow> hd s \<noteq> CHR ''/''"
  by (metis hd_in_set plain_name_def)

lemma plain_not_all_sep: "plain_name s \<Longrightarrow> \<not> all_sep s"
  by (cases s) (auto simp: plain_name_def all_sep_def)

lemma byte_length_append: "byte_length (a @ b) = byte_length a + byte_length b"
  by (simp add: byte_length_def)

lemma check_path_plain: "plain_name d \<Longrightarrow> check_path d = None"
  by (simp add: plain_name_def check_path_def)

lemma check_path_in_directory:
  assumes "plain_name d" and "plain_name f"
  shows "check_path (d @ CHR ''/'' # f) = None"
proof -
  have "byte_length (d @ CHR ''/'' # f) = byte_length d + 1 + byte_length f"
    by (simp add: byte_length_def)
  with assms show ?thesis by (simp add: plain_name_def check_path_def)
qed

lemma path_head_in_directory:
  assumes d: "plain_name d" and f: "CHR ''/'' \<notin> set f"
  shows "path_head (d @ CHR ''/'' # f) = d"
proof -
  from f have "dropWhile (\<lambda>c. c \<noteq> CHR ''/'') (rev f) = []" by auto
  then have "dropWhile (\<lambda>c. c \<noteq> CHR ''/'') (rev (d @ CHR ''/'' # f)) = CHR ''/'' # rev d"
    using f by (simp add: dropWhile_append)
  then have h: "rev (dropWhile (\<lambda>c. c \<noteq> CHR ''/'') (rev (d @ CHR ''/'' # f))) = d @ ''/''"
    by simp
  from d have "d \<noteq> []" by (simp add: plain_name_def)
  have nas: "\<not> all_sep (d @ ''/'')" using plain_not_all_sep [OF d] by (simp add: all_sep_def)
  have "rstrip_sep (d @ ''/'') = d"
    using rstrip_sep_plain [OF \<open>d \<noteq> []\<close> plain_last [OF d]]
    by (simp add: rstrip_sep_def)
  with h nas show ?thesis by (simp add: path_head_def)
qed

lemma resolve_plain:
  assumes "plain_name d" and "nodes fs (cwd fs) = Some Dir"
  shows "resolve fs d = Inr (cwd fs @ [d])"
  using assms plain_hd [OF assms(1)]
  by (simp add: resolve_def check_path_plain split_sep_no_sep plain_name_def)

lemma resolve_in_directory:
  assumes "plain_name d" and "plain_name f" and "nodes fs (cwd fs) = Some Dir"
    and "nodes fs (cwd fs @ [d]) = Some Dir"
  shows "resolve fs (d @ CHR ''/'' # f) = Inr (cwd fs @ [d, f])"
proof -
  have h: "hd d \<noteq> CHR ''/''" by (rule plain_hd [OF assms(1)])
  from assms(1,2) have sp: "split_sep (d @ CHR ''/'' # f) = [d, f]"
    by (simp add: split_sep_append split_sep_no_sep plain_name_def)
  from assms h show ?thesis
    by (simp add: resolve_def check_path_in_directory sp plain_name_def)
qed

lemma makedirs_plain:
  assumes d: "plain_name d" and c: "nodes fs (cwd fs) = Some Dir"
    and nf: "case nodes fs (cwd fs @ [d]) of Some (File content) \<Rightarrow> False | _ \<Rightarrow> True"
  shows "os_makedirs d fs = (None, fs\<lparr>nodes := (nodes fs)(cwd fs @ [d] \<mapsto> Dir)\<rparr>)"
proof -
  from d have ns: "CHR ''/'' \<notin> set d" and ne: "d \<noteq> []" by (simp_all add: plain_name_def)
  have mh: "makedirs_head d = []"
    using ne by (simp add: makedirs_head_def path_tail_no_sep [OF ns] path_head_no_sep [OF ns])
  have st: "rstrip_sep d = d" by (rule rstrip_sep_plain [OF ne plain_last [OF d]])
  have md: "os_makedirs d fs = mkdir_exist_ok d fs"
    by (subst os_makedirs.simps) (simp add: mh)
  show ?thesis
  proof (cases "nodes fs (cwd fs @ [d])")
    case None
    then show ?thesis
      using c by (simp add: md mkdir_exist_ok_def os_mkdir_def plain_not_all_sep [OF d] st
          resolve_plain [OF d c] check_path_plain [OF d])
  next
    case (Some n)
    with nf have n: "n = Dir" by (cases n) simp_all
    have same: "(nodes fs)(cwd fs @ [d] \<mapsto> Dir) = nodes fs"
      using Some n by (simp add: fun_upd_idem)
    show ?thesis
      using Some n c
      by (simp add: md mkdir_exist_ok_def os_mkdir_def plain_not_all_sep [OF d] st
          resolve_plain [OF d c] check_path_plain [OF d] os_path_isdir_def stat_def same)
  qed
qed

lemma write_file_in_directory:
  assumes d: "plain_name d" and f: "plain_name f" and c: "nodes fs (cwd fs) = Some Dir"
    and dd: "nodes fs (cwd fs @ [d]) = Some Dir"
    and nd: "nodes fs (cwd fs @ [d, f]) \<noteq> Some Dir"
  shows "write_file (d @ CHR ''/'' # f) xml fs
           = (None, fs\<lparr>nodes := (nodes fs)(cwd fs @ [d, f] \<mapsto> File xml)\<rparr>)"
proof -
  from f have fn: "f \<noteq> []" by (simp add: plain_name_def)
  have l: "last f \<noteq> CHR ''/''" by (rule plain_last [OF f])
  have bl: "butlast (cwd fs @ [d, f]) = cwd fs @ [d]" by (simp add: butlast_append)
  show ?thesis
  proof (cases "nodes fs (cwd fs @ [d, f])")
    case None
    then show ?thesis
      using dd by (simp add: write_file_def l fn resolve_in_directory [OF d f c dd] bl
          check_path_in_directory [OF d f])
  next
    case (Some n)
    with nd obtain old where "n = File old" by (cases n) simp_all
    with Some show ?thesis
      by (simp add: write_file_def l fn resolve_in_directory [OF d f c dd]
          check_path_in_directory [OF d f])
  qed
qed

lemma read_file_in_directory:
  assumes d: "plain_name d" and f: "plain_name f" and c: "nodes fs (cwd fs) = Some Dir"
    and dd: "nodes fs (cwd fs @ [d]) = Some Dir"
    and ff: "nodes fs (cwd fs @ [d, f]) = Some (File xml)"
  shows "read_file fs (d @ CHR ''/'' # f) = Inr xml"
  using ff by (simp add: read_file_def stat_def resolve_in_directory [OF d f c dd])

lemma write_in_directory:
  assumes w: "writable_in fs d f"
  shows "\<exists>fs'. os_makedirs (os_path_dirname (d @ ''/'' @ f)) fs = (None, fs')
              \<and> (\<exists>fs''. write_file (d @ ''/'' @ f) xml fs' = (None, fs'')
                         \<and> read_file fs'' (d @ ''/'' @ f) = Inr xml)"
proof -
  from w have d: "plain_name d" and f: "plain_name f" and c: "nodes fs (cwd fs) = Some Dir"
    and nf: "case nodes fs (cwd fs @ [d]) of Some (File content) \<Rightarrow> False | _ \<Rightarrow> True"
    and nd: "nodes fs (cwd fs @ [d, f]) \<noteq> Some Dir"
    by (simp_all add: writable_in_def)
  let ?fs1 = "fs\<lparr>nodes := (nodes fs)(cwd fs @ [d] \<mapsto> Dir)\<rparr>"
  let ?fs2 = "?fs1\<lparr>nodes := (nodes ?fs1)(cwd ?fs1 @ [d, f] \<mapsto> File xml)\<rparr>"
  from f have fs: "CHR ''/'' \<notin> set f" by (simp add: plain_name_def)
  have dn: "os_path_dirname (d @ CHR ''/'' # f) = d"
    using path_head_in_directory [OF d fs] by (simp add: os_path_dirname_def)
  have m: "os_makedirs d fs = (None, ?fs1)" by (rule makedirs_plain [OF d c nf])
  have c1: "nodes ?fs1 (cwd ?fs1) = Some Dir" using c by simp
  have dd1: "nodes ?fs1 (cwd ?fs1 @ [d]) = Some Dir" by simp
  have nd1: "nodes ?fs1 (cwd ?fs1 @ [d, f]) \<noteq> Some Dir" using nd by simp
  have wr: "write_file (d @ CHR ''/'' # f) xml ?fs1 = (None, ?fs2)"
    by (rule write_file_in_directory [OF d f c1 dd1 nd1])
  have c2: "nodes ?fs2 (cwd ?fs2) = Some Dir" using c by simp
  have dd2: "nodes ?fs2 (cwd ?fs2 @ [d]) = Some Dir" by simp
  have ff2: "nodes ?fs2 (cwd ?fs2 @ [d, f]) = Some (File xml)" by simp
  have rd: "read_file ?fs2 (d @ CHR ''/'' # f) = Inr xml"
    by (rule read_file_in_directory [OF d f c2 dd2 ff2])
  from m wr rd show ?thesis by (simp add: dn)
qed

lemma formatted_in_directory:
  assumes w: "writable_in fs d f" and x: "final_xml rs = Inr xml"
  shows "\<exists>fs'. generate_formatted_xml rs (d @ ''/'' @ f) fs = (Inr (d @ ''/'' @ f), fs')
              \<and> read_file fs' (d @ ''/'' @ f) = Inr xml"
proof -
  from write_in_directory [OF w, of xml] obtain fs1 fs2 where
    m: "os_makedirs (os_path_dirname (d @ ''/'' @ f)) fs = (None, fs1)"
    and wr: "write_file (d @ ''/'' @ f) xml fs1 = (None, fs2)"
    and rd: "read_file fs2 (d @ ''/'' @ f) = Inr xml"
    by blast
  have "generate_formatted_xml rs (d @ ''/'' @ f) fs = (Inr (d @ ''/'' @ f), fs2)"
    unfolding generate_formatted_xml_def by (simp only: x m wr sum.case prod.case option.case)
  with rd show ?thesis by (intro exI conjI)
qed


lemma writable_sample: "writable_in sample_fs ''output'' ''countries_formatted.xml''"
  by (simp add: writable_in_def plain_name_def sample_fs_def byte_length_def)






section \<open>Reading tags and character data\<close>

text \<open>
  Character data without \<^verbatim>\<open>&\<close>, \<^verbatim>\<open><\<close>, \<^verbatim>\<open>>\<close> and control characters is read character
  by character, escaped character data is read as what was escaped, and a tag with a
  simple name is read as one token.
\<close>

lemma cons_tokens_Nil: "cons_tokens [] r = r"
  by (simp add: cons_tokens_def)

lemma cons_tokens_Cons: "cons_tokens (t # ts) r = cons_token t (cons_tokens ts r)"
  by (simp add: cons_tokens_def)

lemma cons_tokens_append: "cons_tokens (ts @ us) r = cons_tokens ts (cons_tokens us r)"
  by (simp add: cons_tokens_def)

lemma cons_tokens_ok: "cons_tokens ts (Some (Inr us)) = Some (Inr (ts @ us))"
  by (induction ts) (simp_all add: cons_tokens_Nil cons_tokens_Cons cons_token_def)

lemma no_cdata_end_text:
  assumes s: "CHR ''>'' \<notin> set s" and r: "no_cdata_end r"
  shows "no_cdata_end (s @ r)"
proof (cases s)
  case Nil
  with r show ?thesis by simp
next
  case (Cons c t)
  note c = Cons
  show ?thesis
  proof (cases t)
    case Nil
    with c s r show ?thesis by (auto simp: no_cdata_end_def)
  next
    case (Cons c' t')
    with c s show ?thesis by (auto simp: no_cdata_end_def)
  qed
qed

lemma no_cdata_end_lt: "no_cdata_end (CHR ''<'' # r)"
  by (simp add: no_cdata_end_def)

lemma safe_no_gt: "safe_text s \<Longrightarrow> CHR ''>'' \<notin> set s"
  by (auto simp: safe_text_def safe_char_def list_all_iff)

lemma tokenize_safe_char:
  assumes c: "safe_char c" and r: "no_cdata_end r"
  shows "tokenize (c # r) = cons_token (TChar c) (tokenize r)"
proof -
  have n: "starts_with '']]>'' (c # r) = False"
    using r by (auto simp: no_cdata_end_def)
  show ?thesis
    using c by (simp only: tokenize.simps n) (simp add: safe_char_def plain_char_def)
qed

lemma tokenize_chars:
  "safe_text s \<Longrightarrow> no_cdata_end r \<Longrightarrow>
   tokenize (s @ r) = cons_tokens (map TChar s) (tokenize r)"
proof (induction s)
  case Nil
  then show ?case by (simp add: cons_tokens_Nil)
next
  case (Cons c s)
  from Cons.prems have c: "safe_char c" and s: "safe_text s" by (simp_all add: safe_text_def)
  have "no_cdata_end (s @ r)" by (rule no_cdata_end_text [OF safe_no_gt [OF s] Cons.prems(2)])
  with c Cons.IH [OF s Cons.prems(2)] show ?case
    by (simp add: tokenize_safe_char cons_tokens_Cons)
qed

lemma name_start_not_special:
  "is_name_start h \<Longrightarrow> h \<noteq> CHR ''!'' \<and> h \<noteq> CHR ''?'' \<and> h \<noteq> CHR ''/'' \<and> h \<noteq> CHR ''#''"
  by (auto simp: is_name_start_def Let_def)

lemma not_name_char:
  "\<not> is_name_char (CHR ''>'')" "\<not> is_name_char (CHR '' '')" "\<not> is_name_char (CHR '';'')"
  by (simp_all add: is_name_char_def is_name_start_def Let_def)

lemma name_run:
  assumes "list_all is_name_char t" and "\<not> is_name_char x"
  shows "takeWhile is_name_char (t @ x # r) = t"
    and "dropWhile is_name_char (t @ x # r) = x # r"
  using assms by (induction t) simp_all

lemma tokenize_open:
  assumes t: "simple_tag t"
  shows "tokenize (CHR ''<'' # t @ CHR ''>'' # r) = cons_token (TStart t) (tokenize r)"
proof -
  from t obtain h tl where ht: "t = h # tl" and h: "is_name_start h"
    and a: "list_all is_name_char t" and c: "CHR '':'' \<notin> set t"
    by (cases t) (auto simp: simple_tag_def)
  note n = name_start_not_special [OF h]
  have tw: "takeWhile is_name_char (h # tl @ CHR ''>'' # r) = t"
    and dw: "dropWhile is_name_char (h # tl @ CHR ''>'' # r) = CHR ''>'' # r"
    using name_run [OF a not_name_char(1), of r] by (simp_all add: ht)
  show ?thesis
    using n h c
    by (simp only: tokenize.simps ht append_Cons list.case tw dw)
       (simp add: is_space_def ht [symmetric])
qed

lemma tokenize_close:
  assumes t: "simple_tag t"
  shows "tokenize (CHR ''<'' # CHR ''/'' # t @ CHR ''>'' # r) = cons_token (TEnd t) (tokenize r)"
proof -
  from t obtain h tl where ht: "t = h # tl" and h: "is_name_start h"
    and a: "list_all is_name_char t" and c: "CHR '':'' \<notin> set t"
    by (cases t) (auto simp: simple_tag_def)
  have tw: "takeWhile is_name_char (h # tl @ CHR ''>'' # r) = t"
    and dw: "dropWhile is_name_char (h # tl @ CHR ''>'' # r) = CHR ''>'' # r"
    using name_run [OF a not_name_char(1), of r] by (simp_all add: ht)
  show ?thesis
    using h c
    by (simp only: tokenize.simps ht append_Cons list.case tw dw)
       (simp add: is_space_def ht [symmetric])
qed

lemma tokenize_empty:
  assumes t: "simple_tag t"
  shows "tokenize (CHR ''<'' # t @ CHR '' '' # CHR ''/'' # CHR ''>'' # r)
           = cons_token (TEmpty t) (tokenize r)"
proof -
  from t obtain h tl where ht: "t = h # tl" and h: "is_name_start h"
    and a: "list_all is_name_char t" and c: "CHR '':'' \<notin> set t"
    by (cases t) (auto simp: simple_tag_def)
  note n = name_start_not_special [OF h]
  have tw: "takeWhile is_name_char (h # tl @ CHR '' '' # CHR ''/'' # CHR ''>'' # r) = t"
    and dw: "dropWhile is_name_char (h # tl @ CHR '' '' # CHR ''/'' # CHR ''>'' # r)
               = CHR '' '' # CHR ''/'' # CHR ''>'' # r"
    using name_run [OF a not_name_char(2), of "CHR ''/'' # CHR ''>'' # r"]
    by (simp_all add: ht)
  show ?thesis
    using n h c
    by (simp only: tokenize.simps ht append_Cons list.case tw dw)
       (simp add: is_space_def ht [symmetric])
qed

lemma py_replace_char:
  "py_replace [a] new s = concat (map (\<lambda>c. if c = a then new else [c]) s)"
  by (induction s) auto

lemma escape_cdata_Nil: "escape_cdata [] = []"
  by (simp add: escape_cdata_def)

lemma escape_cdata_Cons:
  "escape_cdata (c # s) =
     (if c = CHR ''&'' then ''&amp;'' else if c = CHR ''<'' then ''&lt;''
      else if c = CHR ''>'' then ''&gt;'' else [c]) @ escape_cdata s"
  by (simp add: escape_cdata_def py_replace_char)

lemma escape_cdata_no_gt: "CHR ''>'' \<notin> set (escape_cdata s)"
  by (induction s) (simp_all add: escape_cdata_Nil escape_cdata_Cons)

lemma tokenize_entities:
  "tokenize (''&amp;'' @ r) = cons_token (TChar (CHR ''&'')) (tokenize r)"
  "tokenize (''&lt;'' @ r) = cons_token (TChar (CHR ''<'')) (tokenize r)"
  "tokenize (''&gt;'' @ r) = cons_token (TChar (CHR ''>'')) (tokenize r)"
  by (simp_all add: tokenize.simps is_name_start_def is_name_char_def Let_def entity_def)

lemma tokenize_escaped:
  "plain_text s \<Longrightarrow> no_cdata_end r \<Longrightarrow>
   tokenize (escape_cdata s @ r) = cons_tokens (map TChar s) (tokenize r)"
proof (induction s)
  case Nil
  then show ?case by (simp add: cons_tokens_Nil escape_cdata_Nil)
next
  case (Cons c s)
  from Cons.prems have c: "plain_char c" and s: "plain_text s"
    by (simp_all add: plain_text_def)
  note ih = Cons.IH [OF s Cons.prems(2)]
  have nc: "no_cdata_end (escape_cdata s @ r)"
    by (rule no_cdata_end_text [OF escape_cdata_no_gt Cons.prems(2)])
  consider "c = CHR ''&''" | "c = CHR ''<''" | "c = CHR ''>''" | "safe_char c"
    using c by (auto simp: safe_char_def)
  then show ?case
  proof cases
    case 1
    then show ?thesis
      using tokenize_entities(1) [of "escape_cdata s @ r"] ih
      by (simp add: escape_cdata_Cons cons_tokens_Cons)
  next
    case 2
    then show ?thesis
      using tokenize_entities(2) [of "escape_cdata s @ r"] ih
      by (simp add: escape_cdata_Cons cons_tokens_Cons)
  next
    case 3
    then show ?thesis
      using tokenize_entities(3) [of "escape_cdata s @ r"] ih
      by (simp add: escape_cdata_Cons cons_tokens_Cons)
  next
    case 4
    then have "c \<noteq> CHR ''&''" "c \<noteq> CHR ''<''" "c \<noteq> CHR ''>''" by (simp_all add: safe_char_def)
    then show ?thesis
      using tokenize_safe_char [OF 4 nc] ih
      by (simp add: escape_cdata_Cons cons_tokens_Cons)
  qed
qed

text \<open>
  A sequence of pieces with simple tags, character data free of markup where it is
  written as it is, and no control character in what is escaped, is read as the tokens
  of its pieces.
\<close>

lemma render_Nil: "render [] = []"
  by (simp add: render_def)

lemma render_Cons: "render (p # ps) = render_piece p @ render ps"
  by (simp add: render_def)

lemma render_append: "render (ps @ qs) = render ps @ render qs"
  by (simp add: render_def)

lemma toks_Nil: "toks [] = []"
  by (simp add: toks_def)

lemma toks_Cons: "toks (p # ps) = toks_piece p @ toks ps"
  by (simp add: toks_def)

lemma toks_append: "toks (ps @ qs) = toks ps @ toks qs"
  by (simp add: toks_def)

lemma no_cdata_end_render: "list_all piece_ok ps \<Longrightarrow> no_cdata_end (render ps)"
proof (induction ps)
  case Nil
  then show ?case by (simp add: render_Nil no_cdata_end_def)
next
  case (Cons p ps)
  then have ih: "no_cdata_end (render ps)" and ok: "piece_ok p" by simp_all
  show ?case
  proof (cases p)
    case (Chars s)
    with ok ih show ?thesis
      by (simp add: render_Cons no_cdata_end_text safe_no_gt)
  next
    case (Escaped s)
    with ih show ?thesis
      by (simp add: render_Cons no_cdata_end_text escape_cdata_no_gt)
  qed (simp_all add: render_Cons no_cdata_end_def)
qed

lemma tokenize_render:
  "list_all piece_ok ps \<Longrightarrow> tokenize (render ps) = Some (Inr (toks ps))"
proof (induction ps)
  case Nil
  then show ?case by (simp add: render_Nil toks_Nil)
next
  case (Cons p ps)
  then have ih: "tokenize (render ps) = Some (Inr (toks ps))" and ok: "piece_ok p"
    and oks: "list_all piece_ok ps"
    by simp_all
  note nc = no_cdata_end_render [OF oks]
  show ?case
  proof (cases p)
    case (Open t)
    with ok show ?thesis
      by (simp add: render_Cons toks_Cons tokenize_open ih cons_token_def)
  next
    case (Close t)
    with ok show ?thesis
      by (simp add: render_Cons toks_Cons tokenize_close ih cons_token_def)
  next
    case (Empty t)
    with ok show ?thesis
      by (simp add: render_Cons toks_Cons tokenize_empty ih cons_token_def)
  next
    case (Chars s)
    with ok show ?thesis
      by (simp add: render_Cons toks_Cons tokenize_chars [OF _ nc] ih cons_tokens_ok)
  next
    case (Escaped s)
    with ok show ?thesis
      by (simp add: render_Cons toks_Cons tokenize_escaped [OF _ nc] ih cons_tokens_ok)
  qed
qed

section \<open>The document of the improved generator, read back\<close>

text \<open>
  The tree built from the tokens of one country block, then of all blocks, and the
  elements that are left when the white space between elements is put aside.
\<close>

lemma push_text_Nil: "push_text [] cur = cur"
  by (simp add: push_text_def)

lemma push_text_Cons: "push_text (c # s) cur = push_text s (add_char c cur)"
  by (simp add: push_text_def)

lemma push_text_XText: "push_text s (XText u # cur) = XText (u @ s) # cur"
  by (induction s arbitrary: u) (simp_all add: push_text_Nil push_text_Cons)

lemma push_text_start: "push_text s [] = text_nodes s"
  by (cases s) (simp_all add: push_text_Nil push_text_Cons push_text_XText text_nodes_def)

lemma rev_text_nodes: "rev (text_nodes s) = text_nodes s"
  by (simp add: text_nodes_def)

lemma build_chars: "build (map TChar s @ ts) stack cur = build ts stack (push_text s cur)"
  by (induction s arbitrary: cur) (simp_all add: push_text_Nil push_text_Cons)

lemma build_block:
  "build (toks (block_pieces d) @ ts) stack cur
     = build ts stack (XText [CHR 0x0A, CHR 0x0A] # country_raw d # push_text ''  '' cur)"
  by (simp add: toks_def block_pieces_def build_chars push_text_start rev_text_nodes
      country_raw_def leaf_def push_text_Cons push_text_Nil)

lemma starts_with_append: "starts_with p (p @ s)"
  by (induction p) simp_all






lemma build_blocks:
  "build (toks (concat (map block_pieces ds)) @ ts) stack cur
     = build ts stack
         (foldl (\<lambda>nodes d. XText [CHR 0x0A, CHR 0x0A] # country_raw d # push_text ''  '' nodes)
            cur ds)"
proof (induction ds arbitrary: cur)
  case Nil
  then show ?case by (simp add: toks_Nil)
next
  case (Cons d ds)
  then show ?case by (simp add: toks_append build_block)
qed



lemma block_text: "concat (map (\<lambda>l. l @ [CHR 0x0A]) (country_block d)) = render (block_pieces d)"
  by (simp add: country_block_def block_pieces_def render_def)

lemma block_pieces_ok: "safe_data d \<Longrightarrow> list_all piece_ok (block_pieces d)"
  by (simp add: safe_data_def field_texts_def block_pieces_def simple_tag_def safe_text_def
      safe_char_def plain_char_def is_xml_char_def is_space_def is_name_start_def
      is_name_char_def Let_def)

lemma format_loop_extract_all:
  "format_loop rs acc =
     (case extract_all extract_xml_data rs of
        Inl e \<Rightarrow> Inl e
      | Inr ds \<Rightarrow> Inr (acc @ concat (map country_block ds)))"
  by (induction rs arbitrary: acc) (simp_all split: sum.splits)


lemma length_extract_all: "extract_all ex rs = Inr ds \<Longrightarrow> length ds = length rs"
  by (induction rs arbitrary: ds) (auto split: sum.splits)

lemma join_snoc: "join sep (xs @ [z]) = concat (map (\<lambda>l. l @ sep) xs) @ z"
proof (induction xs)
  case Nil
  then show ?case by simp
next
  case (Cons x xs)
  then show ?case by (cases xs) simp_all
qed

lemma render_blocks:
  "concat (map (\<lambda>l. l @ [CHR 0x0A]) (concat (map country_block ds)))
     = render (concat (map block_pieces ds))"
  by (induction ds) (simp_all add: render_Nil render_append block_text)

lemma improved_layout:
  assumes ds: "extract_all extract_xml_data rs = Inr ds"
  shows "final_xml rs = Inr (xml_declaration @ render (improved_pieces ds))"
proof -
  have "final_xml rs = Inr (join [CHR 0x0A]
          (([xml_declaration, ''<CountriesCollection>''] @ concat (map country_block ds))
            @ [''</CountriesCollection>'']))"
    by (simp add: final_xml_def xml_lines_def format_loop_extract_all ds)
  also have "join [CHR 0x0A]
          (([xml_declaration, ''<CountriesCollection>''] @ concat (map country_block ds))
            @ [''</CountriesCollection>''])
        = xml_declaration @ render (improved_pieces ds)"
    by (simp only: join_snoc)
       (simp add: render_blocks improved_pieces_def render_append render_Cons render_Nil)
  finally show ?thesis .
qed

lemma improved_pieces_ok:
  "list_all safe_data ds \<Longrightarrow> list_all piece_ok (improved_pieces ds)"
proof -
  assume a: "list_all safe_data ds"
  have "list_all piece_ok (concat (map block_pieces ds))"
    using a by (induction ds) (simp_all add: block_pieces_ok)
  then show ?thesis
    by (simp add: improved_pieces_def simple_tag_def safe_text_def safe_char_def plain_char_def
        is_xml_char_def is_space_def is_name_start_def is_name_char_def Let_def)
qed

lemma improved_build:
  "build (toks (improved_pieces ds)) [] []
     = Inr [XText [CHR 0x0A],
            XElem ''CountriesCollection''
              (rev (foldl (\<lambda>nodes d. XText [CHR 0x0A, CHR 0x0A] # country_raw d
                                        # push_text ''  '' nodes)
                      [XText [CHR 0x0A]] ds))]"
  by (simp add: improved_pieces_def toks_append toks_Cons toks_Nil build_blocks)

lemma et_parse_declared:
  "et_parse (xml_declaration @ s) =
     (case tokenize s of
        None \<Rightarrow> None
      | Some (Inl e) \<Rightarrow> Some (Inl e)
      | Some (Inr ts) \<Rightarrow>
          (case build ts [] [] of
             Inl e \<Rightarrow> Some (Inl e)
           | Inr roots \<Rightarrow>
               (case filter (\<lambda>n. \<not> blank n) roots of
                  [XElem name children] \<Rightarrow> Some (Inr (XElem name children))
                | _ \<Rightarrow> Some (Inl ParseError))))"
  by (simp add: et_parse_def starts_with_append)


text \<open>The self-check finds one \<^verbatim>\<open>Countries\<close> element per record in such a document.\<close>

lemma hits_Nil: "hits tag [] = 0"
  by (simp add: hits_def)

lemma hits_Cons:
  "hits tag (n # ns) =
     length ((case n of XElem m cc \<Rightarrow> (if m = tag then [n] else []) | XText t \<Rightarrow> [])
             @ findall tag n) + hits tag ns"
  by (simp add: hits_def)

lemma hits_append: "hits tag (a @ b) = hits tag a + hits tag b"
  by (simp add: hits_def)

lemma hits_rev: "hits tag (rev ns) = hits tag ns"
  by (induction ns) (simp_all add: hits_Nil hits_Cons hits_append)

lemma hits_add_char: "hits tag (add_char c cur) = hits tag cur"
proof (cases cur)
  case Nil
  then show ?thesis by (simp add: hits_Cons hits_Nil)
next
  case (Cons n ns)
  then show ?thesis by (cases n) (simp_all add: hits_Cons)
qed

lemma hits_push_text: "hits tag (push_text s cur) = hits tag cur"
  by (induction s arbitrary: cur) (simp_all add: push_text_Nil push_text_Cons hits_add_char)

lemma findall_leaf: "findall tag (leaf t s) = []"
  by (simp add: leaf_def text_nodes_def)

lemma case_leaf:
  "(case leaf t s of XText x \<Rightarrow> a x | XElem m cc \<Rightarrow> b m cc) = b t (text_nodes s)"
  by (simp add: leaf_def)

lemma findall_country_raw: "findall ''Countries'' (country_raw d) = []"
  by (simp add: country_raw_def findall_leaf case_leaf)

lemma hits_blocks:
  "hits ''Countries''
     (foldl (\<lambda>nodes d. XText [CHR 0x0A, CHR 0x0A] # country_raw d # push_text ''  '' nodes)
        cur ds)
   = hits ''Countries'' cur + length ds"
proof (induction ds arbitrary: cur)
  case Nil
  then show ?case by simp
next
  case (Cons d ds)
  have "hits ''Countries'' (XText [CHR 0x0A, CHR 0x0A] # country_raw d # push_text ''  '' cur)
          = Suc (hits ''Countries'' cur)"
    by (simp add: hits_Cons findall_country_raw hits_push_text) (simp add: country_raw_def)
  then show ?case by (simp add: Cons.IH)
qed

lemma improved_parse_count:
  assumes ds: "extract_all extract_xml_data rs = Inr ds" and safe: "list_all safe_data ds"
  shows "\<exists>doc tree. final_xml rs = Inr doc \<and> et_parse doc = Some (Inr tree)
           \<and> length (findall ''Countries'' tree) = length rs"
proof -
  let ?children = "rev (foldl (\<lambda>nodes d. XText [CHR 0x0A, CHR 0x0A] # country_raw d
                                        # push_text ''  '' nodes) [XText [CHR 0x0A]] ds)"
  let ?tree = "XElem ''CountriesCollection'' ?children"
  let ?doc = "xml_declaration @ render (improved_pieces ds)"
  have f: "final_xml rs = Inr ?doc" by (rule improved_layout [OF ds])
  have t: "tokenize (render (improved_pieces ds)) = Some (Inr (toks (improved_pieces ds)))"
    by (rule tokenize_render [OF improved_pieces_ok [OF safe]])
  have p: "et_parse ?doc = Some (Inr ?tree)"
    by (simp add: et_parse_declared t improved_build is_space_def)
  have "length (findall ''Countries'' ?tree) = hits ''Countries'' ?children"
    by (simp add: hits_def)
  also have "\<dots> = length ds"
    by (simp add: hits_rev hits_blocks hits_Cons hits_Nil)
  also have "\<dots> = length rs" by (rule length_extract_all [OF ds])
  finally have c: "length (findall ''Countries'' ?tree) = length rs" .
  from f p c show ?thesis by (intro exI conjI)
qed

section \<open>The document of the simple generator, read back\<close>

























text \<open>The root of a document with one record is the block of the record.\<close>

lemma simple_root_is_block: "root_tag (elem_tree (country_elem d)) = ''Countries''"
  by (simp add: country_elem_def)

section \<open>Markup characters in a field\<close>

lemmas extract_defs = extract_xml_data_def first_available_def extract_currency_def
  build_xml_data_def language_priority_def simple_extract_xml_data_def simple_local_name_def

lemmas xml_defs = et_parse_def xml_declaration_def is_name_start_def is_name_char_def
  is_space_def is_xml_char_def cons_token_def entity_def Let_def tokenize.simps

text \<open>
  The improved generator puts a name into its line as it is, whatever its characters.
\<close>

lemma common_name_verbatim:
  assumes ws: "well_shaped r"
    and s: "nested r ''name'' ''common'' = Some (JStr s)"
  shows "\<exists>d. extract_xml_data r = Inr d
           \<and> country_block d ! 3 = ''    <CommonName>'' @ s @ ''</CommonName>''"
proof -
  from ws obtain lname ci where
    ex: "extract_xml_data r =
             Inr \<lparr>code = or_empty (field r ''cca2''),
                  original_name = or_empty (nested r ''name'' ''official''),
                  common_name = or_empty (nested r ''name'' ''common''),
                  local_name = lname, currency = ci\<rparr>"
    and cur: "extract_currency (case field r ''currencies'' of None \<Rightarrow> JObj [] | Some v \<Rightarrow> v)
               = Inr ci"
    and nat: "nested r ''name'' ''nativeName'' = None \<longrightarrow> lname = JStr []"
    by (rule extract_well_shaped)
  show ?thesis
    unfolding ex by (simp add: country_block_def s or_empty_def)
qed

lemma improved_ampersand_document:
  "final_xml [ampersand_record] =
   Inr (join [CHR 0x0A]
     [xml_declaration,
      ''<CountriesCollection>'',
      ''  <Countries>'',
      ''    <Code>TT</Code>'',
      ''    <OriginalName></OriginalName>'',
      ''    <CommonName>Trinidad & Tobago</CommonName>'',
      ''    <LocalName></LocalName>'',
      ''    <OfficialCurrency>'',
      ''      <Code></Code>'',
      ''      <Name></Name>'',
      ''      <Symbol></Symbol>'',
      ''    </OfficialCurrency>'',
      ''  </Countries>'',
      [],
      ''</CountriesCollection>''])"
  by (simp add: final_xml_def xml_lines_def ampersand_record_def extract_defs country_block_def)

lemma improved_ampersand_parse:
  "map_sum id et_parse (final_xml [ampersand_record]) = Inr (Some (Inl ParseError))"
  by (simp add: final_xml_def xml_lines_def ampersand_record_def extract_defs country_block_def
      xml_defs)

lemma simple_ampersand_document:
  "simple_final_xml [ampersand_record] =
   Inr (xml_declaration @ [CHR 0x0A]
        @ ''<Countries><Code>TT</Code><OriginalName />''
        @ ''<CommonName>Trinidad &amp; Tobago</CommonName><LocalName />''
        @ ''<OfficialCurrency><Code /><Name /><Symbol /></OfficialCurrency></Countries>'')"
  by (simp add: simple_final_xml_def simple_xml_str_def ampersand_record_def extract_defs
      country_elem_def create_xml_element_def escape_cdata_def)

lemma simple_ampersand_parse:
  "map_sum id et_parse (simple_final_xml [ampersand_record]) =
   Inr (Some (Inr (XElem ''Countries''
          [XElem ''Code'' [XText ''TT''], XElem ''OriginalName'' [],
           XElem ''CommonName'' [XText ''Trinidad & Tobago''], XElem ''LocalName'' [],
           XElem ''OfficialCurrency''
            [XElem ''Code'' [], XElem ''Name'' [], XElem ''Symbol'' []]])))"
  by (simp add: simple_final_xml_def simple_xml_str_def ampersand_record_def extract_defs
      country_elem_def create_xml_element_def escape_cdata_def xml_defs)

text \<open>
  C1 fails in \<^verbatim>\<open>improved_xml_generator.py\<close>. For a record with the common name
  \<^verbatim>\<open>Trinidad & Tobago\<close> the Formatter writes the ampersand as it is, and the document
  is not well-formed: no text can be read back from it. The Formatter of
  \<^verbatim>\<open>simple_xml_generator.py\<close> writes \<^verbatim>\<open>&amp;\<close> for the same record, and the name is
  read back unchanged.
\<close>

theorem ampersand_not_escaped:
  "final_xml [ampersand_record] =
   Inr (join [CHR 0x0A]
     [xml_declaration,
      ''<CountriesCollection>'',
      ''  <Countries>'',
      ''    <Code>TT</Code>'',
      ''    <OriginalName></OriginalName>'',
      ''    <CommonName>Trinidad & Tobago</CommonName>'',
      ''    <LocalName></LocalName>'',
      ''    <OfficialCurrency>'',
      ''      <Code></Code>'',
      ''      <Name></Name>'',
      ''      <Symbol></Symbol>'',
      ''    </OfficialCurrency>'',
      ''  </Countries>'',
      [],
      ''</CountriesCollection>''])
   \<and> map_sum id et_parse (final_xml [ampersand_record]) = Inr (Some (Inl ParseError))
   \<and> simple_final_xml [ampersand_record] =
       Inr (xml_declaration @ [CHR 0x0A]
            @ ''<Countries><Code>TT</Code><OriginalName />''
            @ ''<CommonName>Trinidad &amp; Tobago</CommonName><LocalName />''
            @ ''<OfficialCurrency><Code /><Name /><Symbol /></OfficialCurrency></Countries>'')
   \<and> map_sum id et_parse (simple_final_xml [ampersand_record]) =
       Inr (Some (Inr (XElem ''Countries''
          [XElem ''Code'' [XText ''TT''], XElem ''OriginalName'' [],
           XElem ''CommonName'' [XText ''Trinidad & Tobago''], XElem ''LocalName'' [],
           XElem ''OfficialCurrency''
            [XElem ''Code'' [], XElem ''Name'' [], XElem ''Symbol'' []]])))"
  using improved_ampersand_document improved_ampersand_parse simple_ampersand_document
    simple_ampersand_parse
  by (intro conjI)

section \<open>The self-check on such a record\<close>

lemma read_file_exists: "read_file fs p = Inr x \<Longrightarrow> os_path_exists fs p"
  by (auto simp: read_file_def os_path_exists_def split: sum.splits node.splits)

lemma fetch_trinidad: "fetch_country_data ampersand_api [''trinidad''] = Inr [ampersand_record]"
  by (simp add: fetch_country_data_def ampersand_api_def)

text \<open>
  C2 fails on the same record. One record is fetched for the one name and the document
  is written, but reading it back raises \<^verbatim>\<open>ParseError\<close>: the self-check ends without
  success and counts no country.
\<close>

theorem self_check_fails_on_ampersand:
  "fetch_country_data ampersand_api [''trinidad''] = Inr [ampersand_record]
   \<and> (\<exists>fs'. generate_xml_with_validation True ampersand_api [''trinidad'']
                ''output/countries_formatted.xml'' sample_fs
              = Some (\<lparr>success = False, countries_requested = 1, countries_processed = 0,
                       errors = [Raised ParseError], warnings = []\<rparr>, fs')
            \<and> map_sum id Some (read_file fs' ''output/countries_formatted.xml'')
              = map_sum id Some (final_xml [ampersand_record]))"
proof -
  obtain xml where x: "final_xml [ampersand_record] = Inr xml"
    using improved_ampersand_document by simp
  from formatted_in_directory [OF writable_sample x] obtain fs' where
    g: "generate_formatted_xml [ampersand_record] ''output/countries_formatted.xml'' sample_fs
          = (Inr ''output/countries_formatted.xml'', fs')"
    and r: "read_file fs' ''output/countries_formatted.xml'' = Inr xml"
    by auto
  from r have e: "os_path_exists fs' ''output/countries_formatted.xml''"
    by (rule read_file_exists)
  from improved_ampersand_parse x have p: "et_parse xml = Some (Inl ParseError)" by simp
  have "generate_xml_with_validation True ampersand_api [''trinidad'']
                ''output/countries_formatted.xml'' sample_fs
              = Some (\<lparr>success = False, countries_requested = 1, countries_processed = 0,
                       errors = [Raised ParseError], warnings = []\<rparr>, fs')"
    using e by (simp add: generate_xml_with_validation_def generate_countries_xml_def
        fetch_trinidad g r p)
  with r x fetch_trinidad show ?thesis by auto
qed

section \<open>Root elements\<close>









section \<open>Blocks and fields of a record with markup\<close>

text \<open>
  When the document is built, the path is a file in a directory of the working
  directory that can be written, and no field value has markup or control characters,
  the self-check succeeds and counts one country for each record.
\<close>

lemma self_check_counts_records:
  assumes f: "fetch_country_data api names = Inr rs" and ne: "rs \<noteq> []"
    and ds: "extract_all extract_xml_data rs = Inr ds" and safe: "list_all safe_data ds"
    and w: "writable_in fs d f"
  shows "\<exists>fs'. generate_xml_with_validation True api names (d @ ''/'' @ f) fs
                 = Some (\<lparr>success = True, countries_requested = length names,
                          countries_processed = length rs, errors = [],
                          warnings = (if length rs < length names
                                      then [length names - length rs] else [])\<rparr>, fs')"
proof -
  from improved_parse_count [OF ds safe] obtain doc tree where
    x: "final_xml rs = Inr doc" and p: "et_parse doc = Some (Inr tree)"
    and c: "length (findall ''Countries'' tree) = length rs"
    by blast
  from formatted_in_directory [OF w x] obtain fs' where
    g: "generate_formatted_xml rs (d @ ''/'' @ f) fs = (Inr (d @ ''/'' @ f), fs')"
    and r: "read_file fs' (d @ ''/'' @ f) = Inr doc"
    by blast
  from r have e: "os_path_exists fs' (d @ ''/'' @ f)" by (rule read_file_exists)
  have "generate_xml_with_validation True api names (d @ ''/'' @ f) fs
                 = Some (\<lparr>success = True, countries_requested = length names,
                          countries_processed = length rs, errors = [],
                          warnings = (if length rs < length names
                                      then [length names - length rs] else [])\<rparr>, fs')"
    using e ne g r
    by (simp add: generate_xml_with_validation_def generate_countries_xml_def f p c Let_def)
  then show ?thesis ..
qed

lemma inject_parse:
  "\<exists>tree. map_sum id et_parse (final_xml [inject_record]) = Inr (Some (Inr tree))
         \<and> length (findall ''Countries'' tree) = 2"
  by (simp add: final_xml_def xml_lines_def inject_record_def extract_defs country_block_def
      xml_defs)

lemma fetch_utopia: "fetch_country_data inject_api [''utopia''] = Inr [inject_record]"
  by (simp add: fetch_country_data_def inject_api_def)

text \<open>
  C6 fails on the number of blocks. The lookup of the one name \<^verbatim>\<open>utopia\<close> returns a
  list, the Fetcher takes its one record, and the document written for it holds two
  \<^verbatim>\<open>Countries\<close> elements: the common name of the record closes the block it stands in
  and opens another, since the Formatter writes it unescaped. The self-check reports
  two countries processed for one requested.
\<close>

theorem one_name_two_blocks:
  "lists_or_fails inject_api [''utopia'']
   \<and> fetch_country_data inject_api [''utopia''] = Inr [inject_record]
   \<and> (\<exists>tree. map_sum id et_parse (final_xml [inject_record]) = Inr (Some (Inr tree))
         \<and> length (findall ''Countries'' tree) = 2)
   \<and> (\<exists>fs'. generate_xml_with_validation True inject_api [''utopia'']
                ''output/countries_formatted.xml'' sample_fs
              = Some (\<lparr>success = True, countries_requested = 1, countries_processed = 2,
                       errors = [], warnings = []\<rparr>, fs'))"
proof -
  have l: "lists_or_fails inject_api [''utopia'']"
    by (simp add: lists_or_fails_def inject_api_def)
  from inject_parse obtain tree xml where x: "final_xml [inject_record] = Inr xml"
    and p: "et_parse xml = Some (Inr tree)"
    and c: "length (findall ''Countries'' tree) = 2"
    by (cases "final_xml [inject_record]") auto
  from formatted_in_directory [OF writable_sample x] obtain fs' where
    g: "generate_formatted_xml [inject_record] ''output/countries_formatted.xml'' sample_fs
          = (Inr ''output/countries_formatted.xml'', fs')"
    and r: "read_file fs' ''output/countries_formatted.xml'' = Inr xml"
    by auto
  from r have e: "os_path_exists fs' ''output/countries_formatted.xml''"
    by (rule read_file_exists)
  have v: "generate_xml_with_validation True inject_api [''utopia'']
                ''output/countries_formatted.xml'' sample_fs
              = Some (\<lparr>success = True, countries_requested = 1, countries_processed = 2,
                       errors = [], warnings = []\<rparr>, fs')"
    using e by (simp add: generate_xml_with_validation_def generate_countries_xml_def
        fetch_utopia g r p c)
  then have "\<exists>fs'. generate_xml_with_validation True inject_api [''utopia'']
                ''output/countries_formatted.xml'' sample_fs
              = Some (\<lparr>success = True, countries_requested = 1, countries_processed = 2,
                       errors = [], warnings = []\<rparr>, fs')" ..
  with l fetch_utopia inject_parse show ?thesis by (intro conjI)
qed

lemma symbol_document:
  "final_xml [symbol_record] =
   Inr (join [CHR 0x0A]
     [xml_declaration,
      ''<CountriesCollection>'',
      ''  <Countries>'',
      ''    <Code></Code>'',
      ''    <OriginalName></OriginalName>'',
      ''    <CommonName></CommonName>'',
      ''    <LocalName></LocalName>'',
      ''    <OfficialCurrency>'',
      ''      <Code>XTS</Code>'',
      ''      <Name></Name>'',
      ''      <Symbol><</Symbol>'',
      ''    </OfficialCurrency>'',
      ''  </Countries>'',
      [],
      ''</CountriesCollection>''])"
  by (simp add: final_xml_def xml_lines_def symbol_record_def extract_defs country_block_def)

lemma symbol_parse:
  "map_sum id et_parse (final_xml [symbol_record]) = Inr (Some (Inl ParseError))"
  by (simp add: final_xml_def xml_lines_def symbol_record_def extract_defs country_block_def
      xml_defs)

text \<open>
  C7 fails on the rendered block. The record below has a currency with a symbol and
  nothing else. Extraction raises nothing and gives the empty string for every field
  that is absent, but the symbol is \<^verbatim>\<open><\<close> and the Formatter writes it unescaped: the
  document is not well-formed, and no element of the block can be read from it.
\<close>

theorem missing_fields_block_lost:
  "well_shaped symbol_record
   \<and> extract_xml_data symbol_record =
       Inr \<lparr>code = JStr [], original_name = JStr [], common_name = JStr [],
            local_name = JStr [],
            currency = \<lparr>currency_code = JStr ''XTS'', currency_name = JStr [],
                        currency_symbol = JStr ''<''\<rparr>\<rparr>
   \<and> final_xml [symbol_record] =
       Inr (join [CHR 0x0A]
         [xml_declaration,
          ''<CountriesCollection>'',
          ''  <Countries>'',
          ''    <Code></Code>'',
          ''    <OriginalName></OriginalName>'',
          ''    <CommonName></CommonName>'',
          ''    <LocalName></LocalName>'',
          ''    <OfficialCurrency>'',
          ''      <Code>XTS</Code>'',
          ''      <Name></Name>'',
          ''      <Symbol><</Symbol>'',
          ''    </OfficialCurrency>'',
          ''  </Countries>'',
          [],
          ''</CountriesCollection>''])
   \<and> map_sum id et_parse (final_xml [symbol_record]) = Inr (Some (Inl ParseError))"
proof -
  have w: "well_shaped symbol_record" by (simp add: symbol_record_def well_shaped_def)
  have e: "extract_xml_data symbol_record =
       Inr \<lparr>code = JStr [], original_name = JStr [], common_name = JStr [],
            local_name = JStr [],
            currency = \<lparr>currency_code = JStr ''XTS'', currency_name = JStr [],
                        currency_symbol = JStr ''<''\<rparr>\<rparr>"
    by (simp add: symbol_record_def extract_defs)
  from w e symbol_document symbol_parse show ?thesis by (intro conjI)
qed

lemma ampersand_currency_parse:
  "map_sum id et_parse (final_xml [ampersand_currency_record]) = Inr (Some (Inl ParseError))"
  by (simp add: final_xml_def xml_lines_def ampersand_currency_record_def extract_defs
      country_block_def xml_defs)

lemma tag_key_parse:
  "map_sum id (\<lambda>doc. map_option (map_sum id blocks_of) (et_parse doc))
     (final_xml [tag_key_record])
   = Inr (Some (Inr
       [XElem ''Countries''
          [XElem ''Code'' [], XElem ''OriginalName'' [], XElem ''CommonName'' [],
           XElem ''LocalName'' [],
           XElem ''OfficialCurrency''
             [XElem ''Code'' [XText ''A'', XElem ''B'' []], XElem ''Name'' [],
              XElem ''Symbol'' []]]]))"
  by (simp add: final_xml_def xml_lines_def tag_key_record_def extract_defs country_block_def
      xml_defs)

text \<open>
  C8 fails on what the elements hold. Both records below have a currency mapping with
  exactly one entry. In the first the name of the currency has an ampersand, which the
  Formatter writes unescaped: the document is not well-formed and has no \<^verbatim>\<open>Name\<close>
  element to read. In the second the key of the entry is \<^verbatim>\<open>A<B/>\<close>: the document is
  well-formed, but its \<^verbatim>\<open>Code\<close> element holds the text \<^verbatim>\<open>A\<close> and an element \<^verbatim>\<open>B\<close>, not
  the key.
\<close>

theorem single_currency_not_read_back:
  "well_shaped ampersand_currency_record
   \<and> field ampersand_currency_record ''currencies''
       = Some (JObj [(''TTD'', JObj [(''name'', JStr ''Trinidad & Tobago dollar''),
                                     (''symbol'', JStr ''$'')])])
   \<and> map_sum id et_parse (final_xml [ampersand_currency_record])
       = Inr (Some (Inl ParseError))
   \<and> well_shaped tag_key_record
   \<and> field tag_key_record ''currencies'' = Some (JObj [(''A<B/>'', JObj [])])
   \<and> map_sum id (\<lambda>doc. map_option (map_sum id blocks_of) (et_parse doc))
        (final_xml [tag_key_record])
       = Inr (Some (Inr
           [XElem ''Countries''
              [XElem ''Code'' [], XElem ''OriginalName'' [], XElem ''CommonName'' [],
               XElem ''LocalName'' [],
               XElem ''OfficialCurrency''
                 [XElem ''Code'' [XText ''A'', XElem ''B'' []], XElem ''Name'' [],
                  XElem ''Symbol'' []]]]))"
proof -
  have 1: "well_shaped ampersand_currency_record"
    by (simp add: ampersand_currency_record_def well_shaped_def)
  have 2: "field ampersand_currency_record ''currencies''
       = Some (JObj [(''TTD'', JObj [(''name'', JStr ''Trinidad & Tobago dollar''),
                                     (''symbol'', JStr ''$'')])])"
    by (simp add: ampersand_currency_record_def)
  have 3: "well_shaped tag_key_record" by (simp add: tag_key_record_def well_shaped_def)
  have 4: "field tag_key_record ''currencies'' = Some (JObj [(''A<B/>'', JObj [])])"
    by (simp add: tag_key_record_def)
  from 1 2 ampersand_currency_parse 3 4 tag_key_parse show ?thesis by (intro conjI)
qed

end
